theory Spec2Isabelle
  imports Complex_Main
begin

section \<open>The alignment panel of the Interactive Alignment Toolkit\<close>

text \<open>
  A shallow embedding of \<^verbatim>\<open>src/components/alignment/panel/panel.alignment.jsx\<close>.

  JavaScript numbers are modelled as exact rationals. \<^verbatim>\<open>Math.round\<close> rounds half up.
  A division by zero is where the rationals and JavaScript part ways (HOL returns 0,
  JavaScript returns Infinity or NaN): a scale computed for a rectangle of zero width or
  height, and a coordinate computed from it, is not JavaScript's value. The concrete
  coordinates proved below are computed with non-zero divisors.

  React state setters are queued and applied in call order, and a function reads the panel
  through the snapshot it closed over. Each function below therefore takes the snapshot
  \<open>s\<close>, reads from \<open>s\<close> where the source reads \<^verbatim>\<open>panel.*\<close>, \<^verbatim>\<open>properties.*\<close> or
  \<^verbatim>\<open>pointer.*\<close>, and returns the state after all queued updates. The snapshot is taken to
  be the panel's state at the moment of the call.

  The canvas primitives (draw, clear, load, getImageData, drawControlPoints,
  drawBoundingBox) belong to imported components whose source is not available; they are modelled as total
  operations on the content of each layer, so the \<^verbatim>\<open>catch\<close> branches that only a throwing
  canvas primitive can reach are not part of the model.
\<close>

subsection \<open>Data model\<close>

record point =
  pt_x :: rat
  pt_y :: rat

text \<open>A rectangle \<^verbatim>\<open>{x, y, w, h}\<close>. Where the source builds one without x and y, they are 0 here;
  the functions below read only w and h of such a rectangle.\<close>

record dims =
  dim_x :: rat
  dim_y :: rat
  dim_w :: rat
  dim_h :: rat

record size2 =
  sz_w :: rat
  sz_h :: rat

datatype status = Empty | Load | Loading | Loaded | Update | Downloading | Error

text \<open>A pixel buffer (ImageData). \<open>Blank\<close> is what a cleared canvas holds.\<close>

datatype raster = Blank | Pixels nat

text \<open>What an overlay canvas shows: nothing, a set of control points, or a bounding box.\<close>

datatype drawing = Cleared | ControlPoints "point list" | BoundingBox rat rat rat rat

text \<open>User messages: \<open>GetError key category\<close> stands for the value of
  \<^verbatim>\<open>getError(key, category)\<close> (schema services, source not available).\<close>

datatype message = Msg string string | GetError string string

datatype handler =
    StartPanImage | EndPanImage | PanImage
  | SelectControlPoint | DeselectControlPoint | MoveControlPoint
  | StartCropBox | EndCropBox | SelectCropBox | MoveCropBox

record methods =
  onMouseDown :: handler
  onMouseUp :: handler
  onMouseMove :: handler
  onMouseOut :: handler

datatype mode = Pan | Select | Crop

record properties =
  image_dims :: dims
  render_dims :: dims
  base_dims :: dims
  source_dims :: dims
  bounds :: dims
  magnified_dims :: size2
  overlay :: bool

record pointer =
  ptr_x :: rat
  ptr_y :: rat
  selected :: "point option"
  points :: "point list"
  selectBox :: "dims option"
  index :: int
  magnify :: bool

text \<open>The panel together with what the component owns beside it: the content of its canvas
  layers, the \<^verbatim>\<open>aligned\<close> flag and the toolkit's message slot (\<^verbatim>\<open>iat.message\<close>).\<close>

record panel =
  status :: status
  image_buf :: "raster option"
  source :: "raster option"
  properties :: properties
  pointer :: pointer
  methods :: methods
  imageLayer :: raster
  viewLayer :: "(raster \<times> dims \<times> dims) option"
  magnifiedLayer :: "(raster \<times> dims \<times> dims) option"
  overlayLayer1 :: drawing
  overlayLayer2 :: drawing
  aligned :: bool
  message :: "message option"

record options =
  ptrRadius :: rat
  controlPtMax :: nat
  maxMagnifiedWidth :: rat
  maxMagnifiedHeight :: rat

text \<open>What the DOM reports for the view canvas when a handler asks: \<^verbatim>\<open>viewLayer.current.bounds()\<close>
  and \<^verbatim>\<open>viewLayer.current.dims()\<close>.\<close>

record canvas_env =
  env_bounds :: dims
  env_dims :: dims

subsection \<open>Coordinate transforms (tools/scaler.alignment, source not available)\<close>

definition js_round :: "rat \<Rightarrow> rat" where
  "js_round v = of_int \<lfloor>v + 1 / 2\<rfloor>"

text \<open>Modelled from the spec: \<^verbatim>\<open>getScale\<close> of tools/scaler.alignment is missing. Section 4.1: the
  per-axis ratio of the two rectangles' widths and heights, the factor that converts a length
  measured in one rectangle's space into the other's. Section 4.1 names the arguments
  (fromRect, toRect) and writes the ratio toRect.w / fromRect.w; the callers in the panel pass the
  space converted to first (\<^verbatim>\<open>scaleUp = getScale(image_dims, render_dims)\<close> multiplies a view
  coordinate to give an image pixel, \<^verbatim>\<open>scaleDown = getScale(render_dims, image_dims)\<close> the
  reverse), and the example of section 8 (canvas (400, 300) to image (2000, 1500)) needs
  that order. So the ratio is the first argument's extent over the second's.\<close>

definition getScale :: "dims \<Rightarrow> dims \<Rightarrow> point" where
  "getScale dims1 dims2 =
     \<lparr>pt_x = dim_w dims1 / dim_w dims2, pt_y = dim_h dims1 / dim_h dims2\<rparr>"

text \<open>Modelled from the spec: \<^verbatim>\<open>scalePoint\<close> of tools/scaler.alignment is missing. Section 4.1:
  applies \<^verbatim>\<open>getScale\<close> to a point, its own inverse up to rounding.\<close>

definition scalePoint :: "point \<Rightarrow> dims \<Rightarrow> dims \<Rightarrow> point" where
  "scalePoint pt dims1 dims2 =
     (let scale = getScale dims1 dims2
      in \<lparr>pt_x = js_round (pt_x pt * pt_x scale), pt_y = js_round (pt_y pt * pt_y scale)\<rparr>)"

text \<open>Modelled from the spec: \<^verbatim>\<open>scaleToFit\<close> of tools/scaler.alignment is missing. Section 4.1:
  the largest rectangle with the aspect ratio srcW/srcH that fits within (maxW, maxH).\<close>

definition scaleToFit :: "rat \<Rightarrow> rat \<Rightarrow> rat \<Rightarrow> rat \<Rightarrow> size2" where
  "scaleToFit srcW srcH maxW maxH =
     (let ratio = min (maxW / srcW) (maxH / srcH)
      in \<lparr>sz_w = srcW * ratio, sz_h = srcH * ratio\<rparr>)"

subsection \<open>State setters\<close>

definition setProperties :: "(properties \<Rightarrow> properties) \<Rightarrow> panel \<Rightarrow> panel" where
  "setProperties f s = s\<lparr>properties := f (properties s)\<rparr>"

definition setPointer :: "(pointer \<Rightarrow> pointer) \<Rightarrow> panel \<Rightarrow> panel" where
  "setPointer f s = s\<lparr>pointer := f (pointer s)\<rparr>"

definition emptyBox :: dims where
  "emptyBox = \<lparr>dim_x = 0, dim_y = 0, dim_w = 0, dim_h = 0\<rparr>"

text \<open>Modelled from the spec: \<^verbatim>\<open>pointer.resetSelectBox\<close> of the provider is missing. Section 4.3:
  resets the box to empty.\<close>

definition resetSelectBox :: "panel \<Rightarrow> panel" where
  "resetSelectBox s = setPointer (\<lambda>p. p\<lparr>selectBox := Some emptyBox\<rparr>) s"

text \<open>Modelled from the spec: \<^verbatim>\<open>pointer.clearPoints\<close> of the provider is missing; the caller's
  comment says it clears the control points.\<close>

definition clearPoints :: "panel \<Rightarrow> panel" where
  "clearPoints s = setPointer (\<lambda>p. p\<lparr>points := []\<rparr>) s"

definition resetBounds :: "canvas_env \<Rightarrow> panel \<Rightarrow> panel" where
  "resetBounds env s = setProperties (\<lambda>p. p\<lparr>bounds := env_bounds env\<rparr>) s"

definition clearOverlay :: "panel \<Rightarrow> panel" where
  "clearOverlay s = clearPoints (s\<lparr>overlayLayer1 := Cleared, overlayLayer2 := Cleared\<rparr>)"

subsection \<open>Select mode\<close>

text \<open>The \<^verbatim>\<open>forEach\<close> of \<^verbatim>\<open>_selectControlPoint\<close>: for each stored point, the rendered point
  (with the offset) is collected and the hit test run; a hit records the index. The hit test
  \<^verbatim>\<open>inRange\<close> (tools/scaler.alignment, source not available) is a parameter.\<close>

fun scanControlPoints ::
  "(rat \<Rightarrow> rat \<Rightarrow> rat \<Rightarrow> rat \<Rightarrow> rat \<Rightarrow> bool) \<Rightarrow> rat \<Rightarrow> point \<Rightarrow> point \<Rightarrow> properties
    \<Rightarrow> nat \<Rightarrow> point list \<Rightarrow> point list \<times> int option \<Rightarrow> point list \<times> int option" where
  "scanControlPoints inRange r pos offset props i [] acc = acc"
| "scanControlPoints inRange r pos offset props i (ctrlPt # rest) (pts, hit) =
     (let pt = scalePoint ctrlPt (render_dims props) (image_dims props);
          shown = \<lparr>pt_x = pt_x pt + pt_x offset, pt_y = pt_y pt + pt_y offset\<rparr>
      in scanControlPoints inRange r pos offset props (Suc i) rest
           (pts @ [shown],
            if inRange (pt_x pos) (pt_y pos) (pt_x shown) (pt_y shown) r then Some (int i) else hit))"

definition renderOffset :: "properties \<Rightarrow> point" where
  "renderOffset props =
     \<lparr>pt_x = js_round (dim_x (render_dims props)), pt_y = js_round (dim_y (render_dims props))\<rparr>"

definition outsideImage :: "properties \<Rightarrow> point \<Rightarrow> bool" where
  "outsideImage props pos =
     (let offset = renderOffset props
      in (pt_x pos > dim_w (render_dims props) + pt_x offset
          \<or> pt_y pos > dim_h (render_dims props) + pt_y offset)
         \<or> (pt_x pos < pt_x offset \<or> pt_y pos < pt_y offset))"

definition actualPoint :: "properties \<Rightarrow> point \<Rightarrow> point" where
  "actualPoint props pos =
     (let offset = renderOffset props;
          scaleUp = getScale (image_dims props) (render_dims props)
      in \<lparr>pt_x = js_round (pt_x scaleUp * (pt_x pos - pt_x offset)),
          pt_y = js_round (pt_y scaleUp * (pt_y pos - pt_y offset))\<rparr>)"

text \<open>\<^verbatim>\<open>_selectControlPoint\<close>; \<open>pos\<close> is the position \<^verbatim>\<open>getPos\<close> (tools/pointer.alignment,
  source not available) computes for the event.\<close>

definition selectControlPoint ::
  "options \<Rightarrow> (rat \<Rightarrow> rat \<Rightarrow> rat \<Rightarrow> rat \<Rightarrow> rat \<Rightarrow> bool) \<Rightarrow> canvas_env \<Rightarrow> point \<Rightarrow> panel \<Rightarrow> panel" where
  "selectControlPoint opts inRange env pos s =
     (let s1 = resetBounds env s;
          props = properties s;
          controlPoints = points (pointer s);
          offset = renderOffset props
      in if outsideImage props pos then s1
         else
           let actual = actualPoint props pos;
               (pts, hit) = scanControlPoints inRange (ptrRadius opts) pos offset props 0
                              controlPoints ([], None)
           in case hit of
                Some i \<Rightarrow> setPointer (\<lambda>p. p\<lparr>index := i\<rparr>) s1
              | None \<Rightarrow>
                  if length controlPoints \<ge> controlPtMax opts
                  then s1\<lparr>message := Some (GetError ''maxControlPoints'' ''canvas'')\<rparr>
                  else (setPointer (\<lambda>p. p\<lparr>points := controlPoints @ [actual]\<rparr>) s1)
                         \<lparr>overlayLayer1 := ControlPoints (pts @ [pos])\<rparr>)"

definition deselectControlPoint :: "panel \<Rightarrow> panel" where
  "deselectControlPoint s = setPointer (\<lambda>p. p\<lparr>index := - 1\<rparr>) s"

text \<open>\<^verbatim>\<open>_moveControlPoint\<close>. The read \<^verbatim>\<open>pointer.points[pointer.index]\<close> past the end of the list
  is \<^verbatim>\<open>undefined\<close> in JavaScript and the handler returns.\<close>

definition moveControlPoint :: "panel \<Rightarrow> panel" where
  "moveControlPoint s =
     (let props = properties s; ptr = pointer s
      in case selected ptr of
           None \<Rightarrow> s
         | Some sel \<Rightarrow>
             if index ptr < 0 \<or> nat (index ptr) \<ge> length (points ptr) then s
             else
               let offset = renderOffset props;
                   here = \<lparr>pt_x = ptr_x ptr, pt_y = ptr_y ptr\<rparr>
               in if outsideImage props here then s
                  else
                    let x' = ptr_x ptr + (ptr_x ptr - pt_x sel);
                        y' = ptr_y ptr + (ptr_y ptr - pt_y sel);
                        scaleUp = getScale (image_dims props) (render_dims props);
                        controlPoints = (points ptr)[nat (index ptr) :=
                          \<lparr>pt_x = js_round (pt_x scaleUp * (x' - pt_x offset)),
                           pt_y = js_round (pt_y scaleUp * (y' - pt_y offset))\<rparr>]
                    in (setPointer (\<lambda>p. p\<lparr>selected := Some here, points := controlPoints\<rparr>) s)
                         \<lparr>overlayLayer1 := ControlPoints
                            (map (\<lambda>ctrlPt.
                               let pt = scalePoint ctrlPt (render_dims props) (image_dims props)
                               in \<lparr>pt_x = pt_x offset + pt_x pt, pt_y = pt_y offset + pt_y pt\<rparr>)
                             controlPoints)\<rparr>)"

subsection \<open>Pan mode\<close>

definition startPanImage :: "panel \<Rightarrow> panel" where
  "startPanImage s = s"

definition endPanImage :: "panel \<Rightarrow> panel" where
  "endPanImage s = s"

definition panImage :: "panel \<Rightarrow> panel" where
  "panImage s =
     (let props = properties s; ptr = pointer s
      in case selected ptr of
           None \<Rightarrow> s
         | Some sel \<Rightarrow>
             let x' = dim_x (render_dims props) + ptr_x ptr - pt_x sel;
                 y' = dim_y (render_dims props) + ptr_y ptr - pt_y sel;
                 viewDims = \<lparr>dim_x = x', dim_y = y',
                             dim_w = dim_w (render_dims props), dim_h = dim_h (render_dims props)\<rparr>;
                 sourceDims = \<lparr>dim_x = 0, dim_y = 0,
                               dim_w = dim_w (image_dims props), dim_h = dim_h (image_dims props)\<rparr>;
                 s1 = setPointer (\<lambda>p. p\<lparr>selected := Some \<lparr>pt_x = ptr_x ptr, pt_y = ptr_y ptr\<rparr>\<rparr>) s;
                 s2 = s1\<lparr>viewLayer := Some (imageLayer s1, viewDims, sourceDims)\<rparr>;
                 s3 = setProperties (\<lambda>p. p\<lparr>render_dims := viewDims\<rparr>) s2
             in s3\<lparr>overlayLayer1 := ControlPoints
                      (map (\<lambda>ctrlPt.
                         let pt = scalePoint ctrlPt viewDims (image_dims props)
                         in \<lparr>pt_x = pt_x pt + dim_x viewDims, pt_y = pt_y pt + dim_y viewDims\<rparr>)
                       (points ptr))\<rparr>)"

subsection \<open>Crop mode\<close>

text \<open>A handler that reads a field of a null select box throws a TypeError; each such read
  in the source comes before the handler's first update, so the panel is then left as it was.\<close>

datatype exn = TypeError | Thrown

definition panMethods :: methods where
  "panMethods = \<lparr>onMouseDown = StartPanImage, onMouseUp = EndPanImage,
                 onMouseMove = PanImage, onMouseOut = EndPanImage\<rparr>"

definition selectMethods :: methods where
  "selectMethods = \<lparr>onMouseDown = SelectControlPoint, onMouseUp = DeselectControlPoint,
                    onMouseMove = MoveControlPoint, onMouseOut = DeselectControlPoint\<rparr>"

definition cropMethods :: methods where
  "cropMethods = \<lparr>onMouseDown = StartCropBox, onMouseUp = EndCropBox,
                  onMouseMove = SelectCropBox, onMouseOut = EndCropBox\<rparr>"

definition moveCropMethods :: methods where
  "moveCropMethods = \<lparr>onMouseDown = StartCropBox, onMouseUp = EndCropBox,
                      onMouseMove = MoveCropBox, onMouseOut = EndCropBox\<rparr>"

definition setMethods :: "methods \<Rightarrow> panel \<Rightarrow> panel" where
  "setMethods m s = s\<lparr>methods := m\<rparr>"

definition moveCropBox :: "panel \<Rightarrow> exn + panel" where
  "moveCropBox s =
     (let props = properties s; ptr = pointer s
      in case selected ptr of
           None \<Rightarrow> Inr s
         | Some sel \<Rightarrow>
            (case selectBox ptr of
               None \<Rightarrow> Inl TypeError
             | Some box \<Rightarrow>
                 let scaleDown = getScale (render_dims props) (image_dims props);
                     x' = js_round (pt_x scaleDown * dim_x box) + ptr_x ptr - pt_x sel;
                     y' = js_round (pt_y scaleDown * dim_y box) + ptr_y ptr - pt_y sel;
                     w' = js_round (pt_x scaleDown * dim_w box);
                     h' = js_round (pt_y scaleDown * dim_h box);
                     scaleUp = getScale (image_dims props) (render_dims props)
                 in Inr ((setPointer (\<lambda>p. p\<lparr>selected := Some \<lparr>pt_x = ptr_x ptr, pt_y = ptr_y ptr\<rparr>,
                                        selectBox := Some \<lparr>dim_x = js_round (pt_x scaleUp * x'),
                                                           dim_y = js_round (pt_y scaleUp * y'),
                                                           dim_w = dim_w box, dim_h = dim_h box\<rparr>\<rparr>) s)
                           \<lparr>overlayLayer1 := BoundingBox x' y' w' h'\<rparr>)))"

definition startCropBox :: "panel \<Rightarrow> exn + panel" where
  "startCropBox s =
     (let props = properties s; ptr = pointer s;
          scaledPt = scalePoint \<lparr>pt_x = ptr_x ptr, pt_y = ptr_y ptr\<rparr>
                       (image_dims props) (render_dims props)
      in case selectBox ptr of
           None \<Rightarrow> Inl TypeError
         | Some box \<Rightarrow>
             if dim_w box > 0 \<and> dim_h box > 0
                \<and> pt_x scaledPt \<ge> dim_x box \<and> pt_x scaledPt \<le> dim_x box + dim_w box
                \<and> pt_y scaledPt \<ge> dim_y box \<and> pt_y scaledPt \<le> dim_y box + dim_h box
             then Inr (setMethods moveCropMethods s)
             else Inr ((setPointer (\<lambda>p. p\<lparr>selectBox := Some \<lparr>dim_x = pt_x scaledPt, dim_y = pt_y scaledPt,
                                                             dim_w = 0, dim_h = 0\<rparr>\<rparr>) s)
                         \<lparr>overlayLayer1 := BoundingBox 0 0 0 0\<rparr>))"

text \<open>The clamp of \<^verbatim>\<open>_endCropBox\<close>, one axis: \<open>v\<close> the box's origin, \<open>len\<close> its extent,
  \<open>edge\<close> the image's extent.\<close>

definition clampOrigin :: "rat \<Rightarrow> rat \<Rightarrow> rat" where
  "clampOrigin v edge = js_round (max (min v edge) 0)"

definition clampExtent :: "rat \<Rightarrow> rat \<Rightarrow> rat \<Rightarrow> rat" where
  "clampExtent v len edge =
     (if v + len > edge then edge - \<bar>v\<bar>
      else if v < 0 then len - \<bar>v\<bar>
      else len)"

definition endCropBox :: "panel \<Rightarrow> exn + panel" where
  "endCropBox s =
     (let props = properties s; ptr = pointer s
      in if image_buf s = None \<or> status s \<noteq> Loaded
         then Inr (setMethods cropMethods (resetSelectBox (clearOverlay s)))
         else case selectBox ptr of
           None \<Rightarrow> Inl TypeError
         | Some box \<Rightarrow>
             if dim_w box = 0 \<or> dim_h box = 0
             then Inr (setMethods cropMethods (resetSelectBox (clearOverlay s)))
             else
               let x' = clampOrigin (dim_x box) (dim_w (image_dims props));
                   y' = clampOrigin (dim_y box) (dim_h (image_dims props));
                   w' = clampExtent (dim_x box) (dim_w box) (dim_w (image_dims props));
                   h' = clampExtent (dim_y box) (dim_h box) (dim_h (image_dims props));
                   scale = getScale (render_dims props) (image_dims props);
                   s1 = setPointer (\<lambda>p. p\<lparr>selectBox := Some \<lparr>dim_x = x', dim_y = y',
                                                              dim_w = w', dim_h = h'\<rparr>\<rparr>) s;
                   s2 = s1\<lparr>overlayLayer1 := BoundingBox
                            (js_round (pt_x scale * x')) (js_round (pt_y scale * y'))
                            \<bar>js_round (pt_x scale * w')\<bar> \<bar>js_round (pt_y scale * h')\<bar>\<rparr>
               in Inr (setMethods cropMethods s2))"

definition selectCropBox :: "panel \<Rightarrow> panel" where
  "selectCropBox s =
     (let props = properties s; ptr = pointer s
      in case selected ptr of
           None \<Rightarrow> s
         | Some sel \<Rightarrow>
             let scale = getScale (image_dims props) (render_dims props);
                 x' = min (ptr_x ptr) (pt_x sel);
                 y' = min (ptr_y ptr) (pt_y sel);
                 w' = dim_x (render_dims props) + ptr_x ptr - pt_x sel;
                 h' = dim_y (render_dims props) + ptr_y ptr - pt_y sel
             in (setPointer (\<lambda>p. p\<lparr>selectBox := Some \<lparr>dim_x = js_round (pt_x scale * x'),
                                                       dim_y = js_round (pt_y scale * y'),
                                                       dim_w = \<bar>js_round (pt_x scale * w')\<bar>,
                                                       dim_h = \<bar>js_round (pt_y scale * h')\<bar>\<rparr>\<rparr>) s)
                  \<lparr>overlayLayer1 := BoundingBox (pt_x sel) (pt_y sel) w' h'\<rparr>)"

subsection \<open>Rendering, loading, reset, remove\<close>

text \<open>\<^verbatim>\<open>_renderImage\<close> with \<^verbatim>\<open>_updateMagnified\<close>: the view layer is drawn from the image layer,
  the image layer's pixels become the panel's image, the magnified layer and its dimensions
  are refreshed, and \<^verbatim>\<open>render_dims\<close> becomes the view rectangle.\<close>

definition renderImage :: "options \<Rightarrow> dims \<Rightarrow> dims \<Rightarrow> panel \<Rightarrow> panel" where
  "renderImage opts viewDims imageDims s =
     (let s1 = s\<lparr>viewLayer := Some (imageLayer s, viewDims, imageDims)\<rparr>;
          s2 = s1\<lparr>image_buf := Some (imageLayer s1)\<rparr>;
          magDims = scaleToFit (dim_w imageDims) (dim_h imageDims)
                      (maxMagnifiedWidth opts) (maxMagnifiedHeight opts);
          s3 = s2\<lparr>magnifiedLayer :=
                    Some (imageLayer s2,
                          \<lparr>dim_x = 0, dim_y = 0, dim_w = sz_w magDims, dim_h = sz_h magDims\<rparr>,
                          imageDims)\<rparr>;
          s4 = setProperties (\<lambda>p. p\<lparr>magnified_dims := magDims\<rparr>) s3
      in setProperties (\<lambda>p. p\<lparr>render_dims := viewDims\<rparr>) s4)"

text \<open>The loader's answer (utils/loader.utils.alignment, source not available): the decoded raster,
  the properties the panel reads from \<^verbatim>\<open>props\<close>, and an error.\<close>

record load_props =
  lp_image_dims :: dims
  lp_source_dims :: dims
  lp_base_dims :: dims

record load_response =
  lr_data :: "raster option"
  lr_props :: "load_props option"
  lr_error :: "message option"

text \<open>\<^verbatim>\<open>_init\<close>: the loader's properties are merged into the panel's, with the view canvas's
  size as a first \<^verbatim>\<open>render_dims\<close> and its bounds.\<close>

definition init :: "canvas_env \<Rightarrow> load_props \<Rightarrow> panel \<Rightarrow> panel" where
  "init env props s =
     setProperties (\<lambda>p. p\<lparr>image_dims := lp_image_dims props,
                           source_dims := lp_source_dims props,
                           base_dims := lp_base_dims props,
                           render_dims := \<lparr>dim_x = 0, dim_y = 0,
                                           dim_w = dim_w (env_dims env), dim_h = dim_h (env_dims env)\<rparr>,
                           bounds := env_bounds env\<rparr>) s"

text \<open>\<^verbatim>\<open>_loadImage\<close>, first half, the synchronous part of the call: the status update is
  queued before the loader is called. What the panel is between this and the loader's answer
  also depends on the status effect (\<open>statusEffect\<close> below), which runs at the next render.\<close>

definition loadImage_start :: "panel \<Rightarrow> panel" where
  "loadImage_start s = s\<lparr>status := Loading\<rparr>"

text \<open>\<^verbatim>\<open>_loadImage\<close>, second half: the callback the loader calls with its answer. Loading
  nothing into the image layer (\<^verbatim>\<open>data\<close> null) leaves the layer as it is.\<close>

definition loadImage_done :: "options \<Rightarrow> canvas_env \<Rightarrow> load_response \<Rightarrow> panel \<Rightarrow> panel" where
  "loadImage_done opts env response s =
     (case lr_props response of
        None \<Rightarrow> s
      | Some props \<Rightarrow>
         (case lr_error response of
            Some err \<Rightarrow> s\<lparr>status := Empty, message := Some err\<rparr>
          | None \<Rightarrow>
              let s1 = s\<lparr>source := lr_data response\<rparr>;
                  s2 = init env props s1;
                  dims = scaleToFit (dim_w (lp_source_dims props)) (dim_h (lp_source_dims props))
                           (dim_w (lp_base_dims props)) (dim_h (lp_base_dims props));
                  s3 = s2\<lparr>imageLayer := (case lr_data response of Some r \<Rightarrow> r | None \<Rightarrow> imageLayer s2)\<rparr>;
                  s4 = renderImage opts
                         \<lparr>dim_x = 0, dim_y = 0, dim_w = sz_w dims, dim_h = sz_h dims\<rparr>
                         \<lparr>dim_x = 0, dim_y = 0, dim_w = dim_w (lp_source_dims props),
                          dim_h = dim_h (lp_source_dims props)\<rparr> s3
              in s4\<lparr>status := Loaded\<rparr>))"

text \<open>The two halves in sequence. A run of the status effect between them changes the status
  only, and the second half, for an answer with properties, overwrites the status without
  reading it (lemma \<open>loadImage_across_statusEffect\<close>).\<close>

definition loadImage :: "options \<Rightarrow> canvas_env \<Rightarrow> load_response \<Rightarrow> panel \<Rightarrow> panel" where
  "loadImage opts env response s = loadImage_done opts env response (loadImage_start s)"

text \<open>\<^verbatim>\<open>_updateImage\<close>.\<close>

definition updateImage :: "options \<Rightarrow> panel \<Rightarrow> panel" where
  "updateImage opts s =
     (let props = properties s;
          dims = scaleToFit (dim_w (source_dims props)) (dim_h (source_dims props))
                   (dim_w (base_dims props)) (dim_h (base_dims props));
          s1 = s\<lparr>imageLayer := (case image_buf s of Some r \<Rightarrow> r | None \<Rightarrow> imageLayer s)\<rparr>
      in renderImage opts
           \<lparr>dim_x = 0, dim_y = 0, dim_w = sz_w dims, dim_h = sz_h dims\<rparr>
           \<lparr>dim_x = 0, dim_y = 0, dim_w = dim_w (source_dims props),
            dim_h = dim_h (source_dims props)\<rparr> s1)"

text \<open>The status effect (the \<^verbatim>\<open>useEffect\<close> on \<^verbatim>\<open>panel.status\<close>): it runs after a render whose
  status differs from the status \<open>old\<close> that its previous run saw. First the previous run's
  cleanup, which closed over \<open>old\<close>: leaving empty or update, it sets the status to loaded.
  Then the body, which reads the status of the new render \<open>s\<close>: on load it calls
  \<^verbatim>\<open>_loadImage\<close> (whose synchronous part is \<open>loadImage_start\<close>), on update it calls
  \<^verbatim>\<open>_updateImage\<close> and sets the status to loaded. The updates are applied in this order.\<close>

definition statusEffect :: "options \<Rightarrow> status \<Rightarrow> panel \<Rightarrow> panel" where
  "statusEffect opts old s =
     (let s1 = (if old = Empty \<or> old = Update then s\<lparr>status := Loaded\<rparr> else s)
      in if status s = Load then loadImage_start s1
         else if status s = Update then (updateImage opts s1)\<lparr>status := Loaded\<rparr>
         else s1)"

text \<open>\<^verbatim>\<open>_resetImage\<close>.\<close>

definition resetImage :: "options \<Rightarrow> panel \<Rightarrow> panel" where
  "resetImage opts s =
     (let props = properties s;
          s1 = resetSelectBox (s\<lparr>image_buf := source s\<rparr>);
          viewDims = scaleToFit (dim_w (source_dims props)) (dim_h (source_dims props))
                       (dim_w (base_dims props)) (dim_h (base_dims props));
          view = \<lparr>dim_x = 0, dim_y = 0, dim_w = sz_w viewDims, dim_h = sz_h viewDims\<rparr>
      in case source s of
           None \<Rightarrow> s1
         | Some src \<Rightarrow>
             let s2 = s1\<lparr>imageLayer := src\<rparr>;
                 s3 = renderImage opts view
                        \<lparr>dim_x = 0, dim_y = 0, dim_w = dim_w (source_dims props),
                         dim_h = dim_h (source_dims props)\<rparr> s2;
                 s4 = setProperties (\<lambda>p. p\<lparr>image_dims := \<lparr>dim_x = 0, dim_y = 0,
                                                            dim_w = dim_w (source_dims props),
                                                            dim_h = dim_h (source_dims props)\<rparr>,
                                            render_dims := view\<rparr>) s3;
                 s5 = s4\<lparr>message := Some (Msg ''Loaded image reset to source image.'' ''success''),
                         status := Loaded, aligned := False\<rparr>
             in s5\<lparr>overlayLayer1 := ControlPoints
                      (map (\<lambda>ctrlPt. scalePoint ctrlPt view (image_dims props))
                           (points (pointer s)))\<rparr>)"

definition initPointer :: pointer where
  "initPointer = \<lparr>ptr_x = 0, ptr_y = 0, selected = None, points = [],
                  selectBox = Some emptyBox, index = - 1, magnify = False\<rparr>"

text \<open>Modelled from the spec: \<^verbatim>\<open>panel.reset\<close> of the provider is missing. Section 3: remove tears
  down to empty, clearing both buffers and all pointer and control-point state.\<close>

definition reset :: "panel \<Rightarrow> panel" where
  "reset s = s\<lparr>image_buf := None, source := None, pointer := initPointer\<rparr>"

text \<open>\<^verbatim>\<open>_removeImage\<close>, for whatever the provider's \<^verbatim>\<open>panel.reset\<close> does (\<open>rst\<close>): the overlay
  and the control points are cleared, the provider's reset runs, the image, view and magnified
  canvases are cleared and the status is set to empty. The function itself does not touch
  the panel's image.\<close>

definition removeImageWith :: "(panel \<Rightarrow> panel) \<Rightarrow> panel \<Rightarrow> panel" where
  "removeImageWith rst s =
     (rst (clearOverlay s))\<lparr>imageLayer := Blank, viewLayer := None, magnifiedLayer := None,
                            status := Empty\<rparr>"

text \<open>\<^verbatim>\<open>_removeImage\<close> with the reset of the spec.\<close>

definition removeImage :: "panel \<Rightarrow> panel" where
  "removeImage s = removeImageWith reset s"

subsection \<open>Commands: align and crop\<close>

text \<open>What \<^verbatim>\<open>alignImages\<close> (utils/align.utils.alignment, source not available) does when called: it
  throws, or returns an error, or returns the warped raster with its width and height, the
  raster being then what the image layer holds.\<close>

datatype align_result = AlignThrows | AlignError message | AlignData raster rat rat

text \<open>\<^verbatim>\<open>_alignImage\<close>.\<close>

definition alignImage :: "options \<Rightarrow> align_result \<Rightarrow> panel \<Rightarrow> panel" where
  "alignImage opts result s =
     (let s1 = s\<lparr>status := Loading\<rparr>
      in case result of
           AlignThrows \<Rightarrow> s1\<lparr>status := Error\<rparr>
         | AlignError err \<Rightarrow> s1\<lparr>message := Some err\<rparr>
         | AlignData r width height \<Rightarrow>
             let scaledDims = scaleToFit width height
                                (dim_w (base_dims (properties s))) (dim_h (base_dims (properties s)));
                 s2 = renderImage opts
                        \<lparr>dim_x = 0, dim_y = 0, dim_w = sz_w scaledDims, dim_h = sz_h scaledDims\<rparr>
                        \<lparr>dim_x = 0, dim_y = 0, dim_w = width, dim_h = height\<rparr>
                        (s1\<lparr>imageLayer := r\<rparr>)
             in s2\<lparr>status := Loaded, aligned := True\<rparr>)"

text \<open>\<^verbatim>\<open>_applyCropBox\<close>; \<open>cropped\<close> is what \<^verbatim>\<open>cropImage\<close> (tools/cropper.alignment, source not
  available) does when called: it throws, or leaves the cropped raster in the image layer.\<close>

definition applyCropBox :: "options \<Rightarrow> exn + raster \<Rightarrow> panel \<Rightarrow> panel" where
  "applyCropBox opts cropped s =
     (let s1 = s\<lparr>status := Loading\<rparr>
      in case selectBox (pointer s) of
           None \<Rightarrow> s1
         | Some box \<Rightarrow>
             if dim_w box = 0 \<and> dim_h box = 0 then s1
             else (case cropped of
               Inl e \<Rightarrow> s1\<lparr>status := Error,
                            message := Some (Msg ''Image could not be cropped.'' ''error'')\<rparr>
             | Inr r \<Rightarrow>
                 let s2 = s1\<lparr>imageLayer := r\<rparr>;
                     scaledDims = scaleToFit (dim_w box) (dim_h box)
                                    (dim_w (base_dims (properties s))) (dim_h (base_dims (properties s)));
                     s3 = clearOverlay s2;
                     view = \<lparr>dim_x = 0, dim_y = 0, dim_w = sz_w scaledDims, dim_h = sz_h scaledDims\<rparr>;
                     s4 = renderImage opts view
                            \<lparr>dim_x = 0, dim_y = 0, dim_w = dim_w box, dim_h = dim_h box\<rparr> s3;
                     s5 = setProperties (\<lambda>p. p\<lparr>image_dims := \<lparr>dim_x = 0, dim_y = 0,
                                                                dim_w = dim_w box, dim_h = dim_h box\<rparr>,
                                                render_dims := view\<rparr>) s4;
                     s6 = setPointer (\<lambda>p. p\<lparr>selectBox := Some emptyBox\<rparr>) s5
                 in s6\<lparr>status := Loaded\<rparr>))"

subsection \<open>Mode changes and event dispatch\<close>

text \<open>The effect that runs when \<^verbatim>\<open>iat.mode\<close> changes (and on mount).\<close>

definition modeEffect :: "options \<Rightarrow> mode \<Rightarrow> panel \<Rightarrow> panel" where
  "modeEffect opts m s =
     (case m of
        Pan \<Rightarrow> setMethods panMethods s
      | Select \<Rightarrow> setMethods selectMethods s
      | Crop \<Rightarrow> setMethods cropMethods (if image_buf s \<noteq> None then resetImage opts s else s))"

text \<open>The behaviour set a handler belongs to.\<close>

fun handlerMode :: "handler \<Rightarrow> mode" where
  "handlerMode StartPanImage = Pan"
| "handlerMode EndPanImage = Pan"
| "handlerMode PanImage = Pan"
| "handlerMode SelectControlPoint = Select"
| "handlerMode DeselectControlPoint = Select"
| "handlerMode MoveControlPoint = Select"
| "handlerMode StartCropBox = Crop"
| "handlerMode EndCropBox = Crop"
| "handlerMode SelectCropBox = Crop"
| "handlerMode MoveCropBox = Crop"

definition bundleOf :: "mode \<Rightarrow> methods \<Rightarrow> bool" where
  "bundleOf m ms \<longleftrightarrow>
     handlerMode (onMouseDown ms) = m \<and> handlerMode (onMouseUp ms) = m
     \<and> handlerMode (onMouseMove ms) = m \<and> handlerMode (onMouseOut ms) = m"

datatype mouse = MouseDown | MouseUp | MouseMove | MouseOut

record mouse_event =
  ev_kind :: mouse
  ev_pos :: point
  ev_env :: canvas_env

fun runHandler ::
  "options \<Rightarrow> (rat \<Rightarrow> rat \<Rightarrow> rat \<Rightarrow> rat \<Rightarrow> rat \<Rightarrow> bool) \<Rightarrow> mouse_event \<Rightarrow> handler \<Rightarrow> panel \<Rightarrow> exn + panel" where
  "runHandler opts inRange ev StartPanImage s = Inr (startPanImage s)"
| "runHandler opts inRange ev EndPanImage s = Inr (endPanImage s)"
| "runHandler opts inRange ev PanImage s = Inr (panImage s)"
| "runHandler opts inRange ev SelectControlPoint s =
     Inr (selectControlPoint opts inRange (ev_env ev) (ev_pos ev) s)"
| "runHandler opts inRange ev DeselectControlPoint s = Inr (deselectControlPoint s)"
| "runHandler opts inRange ev MoveControlPoint s = Inr (moveControlPoint s)"
| "runHandler opts inRange ev StartCropBox s = startCropBox s"
| "runHandler opts inRange ev EndCropBox s = endCropBox s"
| "runHandler opts inRange ev SelectCropBox s = Inr (selectCropBox s)"
| "runHandler opts inRange ev MoveCropBox s = moveCropBox s"

definition installed :: "mouse \<Rightarrow> methods \<Rightarrow> handler" where
  "installed k ms =
     (case k of MouseDown \<Rightarrow> onMouseDown ms | MouseUp \<Rightarrow> onMouseUp ms
              | MouseMove \<Rightarrow> onMouseMove ms | MouseOut \<Rightarrow> onMouseOut ms)"

text \<open>A pointer event runs the handler the panel's methods hold for it. A handler that throws
  has made no update, and the panel stays as it was.\<close>

definition dispatch ::
  "options \<Rightarrow> (rat \<Rightarrow> rat \<Rightarrow> rat \<Rightarrow> rat \<Rightarrow> rat \<Rightarrow> bool) \<Rightarrow> mouse_event \<Rightarrow> panel \<Rightarrow> panel" where
  "dispatch opts inRange ev s =
     (case runHandler opts inRange ev (installed (ev_kind ev) (methods s)) s of
        Inl e \<Rightarrow> s
      | Inr s' \<Rightarrow> s')"

text \<open>What happens to a mounted panel: the toolkit mode changes (and the mode effect runs),
  the controller records the cursor, a pointer event is dispatched to the installed handler,
  or one of the commands load, reset, remove, align, crop runs. The controller
  (controller.panel.alignment) is not available: what it stores in the pointer (position and
  anchor) is a parameter of \<open>TrackPointer\<close>.\<close>

datatype action =
    SetMode mode
  | TrackPointer rat rat "point option"
  | PointerEvent mouse_event
  | LoadCmd canvas_env load_response
  | ResetCmd
  | RemoveCmd
  | AlignCmd align_result
  | CropCmd "exn + raster"

text \<open>The mode effect also runs once on mount, for the mode the toolkit is in.\<close>

definition mount :: "options \<Rightarrow> mode \<Rightarrow> panel \<Rightarrow> mode \<times> panel" where
  "mount opts m s = (m, modeEffect opts m s)"

fun step ::
  "options \<Rightarrow> (rat \<Rightarrow> rat \<Rightarrow> rat \<Rightarrow> rat \<Rightarrow> rat \<Rightarrow> bool) \<Rightarrow> action \<Rightarrow> mode \<times> panel \<Rightarrow> mode \<times> panel" where
  "step opts inRange (SetMode m') (m, s) = (m', modeEffect opts m' s)"
| "step opts inRange (TrackPointer x y anchor) (m, s) =
     (m, setPointer (\<lambda>p. p\<lparr>ptr_x := x, ptr_y := y, selected := anchor\<rparr>) s)"
| "step opts inRange (PointerEvent ev) (m, s) = (m, dispatch opts inRange ev s)"
| "step opts inRange (LoadCmd env response) (m, s) = (m, loadImage opts env response s)"
| "step opts inRange ResetCmd (m, s) = (m, resetImage opts s)"
| "step opts inRange RemoveCmd (m, s) = (m, removeImage s)"
| "step opts inRange (AlignCmd result) (m, s) = (m, alignImage opts result s)"
| "step opts inRange (CropCmd cropped) (m, s) = (m, applyCropBox opts cropped s)"

definition runActions ::
  "options \<Rightarrow> (rat \<Rightarrow> rat \<Rightarrow> rat \<Rightarrow> rat \<Rightarrow> rat \<Rightarrow> bool) \<Rightarrow> action list \<Rightarrow> mode \<times> panel \<Rightarrow> mode \<times> panel" where
  "runActions opts inRange acts c = foldl (\<lambda>c a. step opts inRange a c) c acts"

subsection \<open>Notions the properties are stated with\<close>

text \<open>A stored control point is near a canvas position when the hit test accepts the
  position against the point as it is rendered (scaled to the view and shifted by the render
  offset): the test \<^verbatim>\<open>_selectControlPoint\<close> runs for each stored point.\<close>

definition nearControlPoint ::
  "(rat \<Rightarrow> rat \<Rightarrow> rat \<Rightarrow> rat \<Rightarrow> rat \<Rightarrow> bool) \<Rightarrow> rat \<Rightarrow> properties \<Rightarrow> point \<Rightarrow> point \<Rightarrow> bool" where
  "nearControlPoint inRange r props pos ctrlPt =
     (let pt = scalePoint ctrlPt (render_dims props) (image_dims props);
          offset = renderOffset props
      in inRange (pt_x pos) (pt_y pos) (pt_x pt + pt_x offset) (pt_y pt + pt_y offset) r)"

text \<open>The spec's crop-box clamp, following its words: the intersection of a box with the image
  bounds \<open>[0, w] \<times> [0, h]\<close>; a box that does not overlap the image collapses to empty and is
  not committed (\<open>None\<close>).\<close>

definition intersectBox_spec :: "dims \<Rightarrow> dims \<Rightarrow> dims option" where
  "intersectBox_spec box img =
     (let left = max (dim_x box) 0; right = min (dim_x box + dim_w box) (dim_w img);
          top = max (dim_y box) 0; bottom = min (dim_y box + dim_h box) (dim_h img)
      in if right \<le> left \<or> bottom \<le> top then None
         else Some \<lparr>dim_x = left, dim_y = top, dim_w = right - left, dim_h = bottom - top\<rparr>)"

text \<open>The spec's panel invariant, following its words: the image is null exactly when the
  status is empty.\<close>

definition imageNullIffEmpty_spec :: "panel \<Rightarrow> bool" where
  "imageNullIffEmpty_spec s \<longleftrightarrow> (image_buf s = None) = (status s = Empty)"

subsection \<open>Example values\<close>

text \<open>A Euclidean hit test, an instance of the \<^verbatim>\<open>inRange\<close> parameter.\<close>

definition inRangeEuclid :: "rat \<Rightarrow> rat \<Rightarrow> rat \<Rightarrow> rat \<Rightarrow> rat \<Rightarrow> bool" where
  "inRangeEuclid px py cx cy r \<longleftrightarrow> (px - cx) * (px - cx) + (py - cy) * (py - cy) \<le> r * r"

definition exampleOptions :: options where
  "exampleOptions = \<lparr>ptrRadius = 20, controlPtMax = 4,
                      maxMagnifiedWidth = 2000, maxMagnifiedHeight = 2000\<rparr>"

definition rect :: "rat \<Rightarrow> rat \<Rightarrow> rat \<Rightarrow> rat \<Rightarrow> dims" where
  "rect a b c d = \<lparr>dim_x = a, dim_y = b, dim_w = c, dim_h = d\<rparr>"

definition pt :: "rat \<Rightarrow> rat \<Rightarrow> point" where
  "pt a b = \<lparr>pt_x = a, pt_y = b\<rparr>"

definition exampleEnv :: canvas_env where
  "exampleEnv = \<lparr>env_bounds = rect 10 20 800 600, env_dims = rect 0 0 800 600\<rparr>"

text \<open>A panel as the toolkit creates it: no image, no points, pan handlers.\<close>

definition emptyPanel :: panel where
  "emptyPanel =
     \<lparr>status = Empty, image_buf = None, source = None,
      properties = \<lparr>image_dims = rect 0 0 0 0, render_dims = rect 0 0 0 0,
                    base_dims = rect 0 0 800 600, source_dims = rect 0 0 0 0,
                    bounds = rect 0 0 0 0, magnified_dims = \<lparr>sz_w = 0, sz_h = 0\<rparr>,
                    overlay = False\<rparr>,
      pointer = initPointer, methods = panMethods,
      imageLayer = Blank, viewLayer = None, magnifiedLayer = None,
      overlayLayer1 = Cleared, overlayLayer2 = Cleared, aligned = False, message = None\<rparr>"

text \<open>The loader's answer for a 4000 x 3000 image and an 800 x 600 canvas.\<close>

definition exampleResponse :: load_response where
  "exampleResponse =
     \<lparr>lr_data = Some (Pixels 1),
      lr_props = Some \<lparr>lp_image_dims = rect 0 0 4000 3000, lp_source_dims = rect 0 0 4000 3000,
                       lp_base_dims = rect 0 0 800 600\<rparr>,
      lr_error = None\<rparr>"

definition loadedPanel :: panel where
  "loadedPanel = loadImage exampleOptions exampleEnv exampleResponse emptyPanel"

text \<open>The loaded panel after a first control point was placed at the canvas origin, and options
  that allow one control point only.\<close>

definition markedPanel :: panel where
  "markedPanel = selectControlPoint exampleOptions inRangeEuclid exampleEnv (pt 0 0) loadedPanel"

definition onePointOptions :: options where
  "onePointOptions = exampleOptions\<lparr>controlPtMax := 1\<rparr>"

text \<open>A 150 x 300 image in the same canvas: it is rendered 300 x 600, so that the canvas
  positions right of x = 300 are outside the rendered image.\<close>

definition narrowResponse :: load_response where
  "narrowResponse =
     \<lparr>lr_data = Some (Pixels 2),
      lr_props = Some \<lparr>lp_image_dims = rect 0 0 150 300, lp_source_dims = rect 0 0 150 300,
                       lp_base_dims = rect 0 0 800 600\<rparr>,
      lr_error = None\<rparr>"

definition narrowPanel :: panel where
  "narrowPanel = loadImage exampleOptions exampleEnv narrowResponse emptyPanel"

definition narrowMarked :: panel where
  "narrowMarked = selectControlPoint exampleOptions inRangeEuclid exampleEnv (pt 0 0) narrowPanel"

text \<open>The 150 x 300 image with a crop box drawn.\<close>

definition cropPanel :: "dims \<Rightarrow> panel" where
  "cropPanel box = setPointer (\<lambda>p. p\<lparr>selectBox := Some box\<rparr>) narrowPanel"

text \<open>The same with the committed box (10, 10, 50, 50) drawn on overlay layer 1, as
  \<^verbatim>\<open>_endCropBox\<close> draws it.\<close>

definition boxedPanel :: panel where
  "boxedPanel = (cropPanel (rect 10 10 50 50))\<lparr>overlayLayer1 := BoundingBox 20 20 100 100\<rparr>"

text \<open>The empty panel after the provider has set its status to load.\<close>

definition requestedPanel :: panel where
  "requestedPanel = emptyPanel\<lparr>status := Load\<rparr>"

text \<open>A pointer event of a given kind (the handlers other than \<^verbatim>\<open>_selectControlPoint\<close> read the
  cursor from the pointer, not from the event).\<close>

definition mouseEvent :: "mouse \<Rightarrow> mouse_event" where
  "mouseEvent k = \<lparr>ev_kind = k, ev_pos = pt 0 0, ev_env = exampleEnv\<rparr>"

text \<open>A panel dragged in pan mode: the anchor at (100, 100), the cursor at (130, 90).\<close>

definition draggedPanel :: panel where
  "draggedPanel =
     setPointer (\<lambda>p. p\<lparr>ptr_x := 130, ptr_y := 90, selected := Some (pt 100 100)\<rparr>) loadedPanel"

section \<open>Properties\<close>

subsection \<open>Auxiliary facts\<close>

lemma scanControlPoints_no_hit:
  "snd (scanControlPoints inRange r pos (renderOffset props) props i ctrlPts (pts, hit)) = None
   \<longleftrightarrow> hit = None \<and> (\<forall>c \<in> set ctrlPts. \<not> nearControlPoint inRange r props pos c)"
  by (induction ctrlPts arbitrary: i pts hit) (auto simp: nearControlPoint_def Let_def)

text \<open>Away from every stored point and inside the rendered image, the handler either reports
  the cap or appends the image-space point.\<close>

lemma selectControlPoint_no_hit:
  assumes inside: "\<not> outsideImage (properties s) pos"
      and far: "\<forall>c \<in> set (points (pointer s)).
                  \<not> nearControlPoint inRange (ptrRadius opts) (properties s) pos c"
  shows "\<exists>pts. selectControlPoint opts inRange env pos s =
     (if length (points (pointer s)) \<ge> controlPtMax opts
      then (resetBounds env s)\<lparr>message := Some (GetError ''maxControlPoints'' ''canvas'')\<rparr>
      else (setPointer (\<lambda>p. p\<lparr>points := points (pointer s) @ [actualPoint (properties s) pos]\<rparr>)
              (resetBounds env s))\<lparr>overlayLayer1 := ControlPoints (pts @ [pos])\<rparr>)"
proof -
  have "snd (scanControlPoints inRange (ptrRadius opts) pos (renderOffset (properties s))
               (properties s) 0 (points (pointer s)) ([], None)) = None"
    using far by (simp add: scanControlPoints_no_hit)
  then obtain pts where
    "scanControlPoints inRange (ptrRadius opts) pos (renderOffset (properties s))
       (properties s) 0 (points (pointer s)) ([], None) = (pts, None)"
    by (metis prod.collapse)
  then show ?thesis using inside
    by (auto simp add: selectControlPoint_def Let_def)
qed

lemma resetBounds_frame:
  "pointer (resetBounds env s) = pointer s"
  "message (resetBounds env s) = message s"
  "status (resetBounds env s) = status s"
  "image_buf (resetBounds env s) = image_buf s"
  "overlayLayer1 (resetBounds env s) = overlayLayer1 s"
  "overlayLayer2 (resetBounds env s) = overlayLayer2 s"
  "methods (resetBounds env s) = methods s"
  by (simp_all add: resetBounds_def setProperties_def)

lemma renderImage_frame:
  "image_buf (renderImage opts v i s) = Some (imageLayer s)"
  "pointer (renderImage opts v i s) = pointer s"
  "status (renderImage opts v i s) = status s"
  "methods (renderImage opts v i s) = methods s"
  "render_dims (properties (renderImage opts v i s)) = v"
  "image_dims (properties (renderImage opts v i s)) = image_dims (properties s)"
  by (simp_all add: renderImage_def setProperties_def Let_def)

lemma resetImage_image: "image_buf (resetImage opts s) = source s"
  by (cases "source s")
     (simp_all add: resetImage_def Let_def resetSelectBox_def setPointer_def setProperties_def
        renderImage_frame)

lemma resetImage_selectBox: "selectBox (pointer (resetImage opts s)) = Some emptyBox"
  by (cases "source s")
     (simp_all add: resetImage_def Let_def resetSelectBox_def setPointer_def setProperties_def
        renderImage_frame)

lemma resetImage_methods: "methods (resetImage opts s) = methods s"
  by (cases "source s")
     (simp_all add: resetImage_def Let_def resetSelectBox_def setPointer_def setProperties_def
        renderImage_frame)

lemma renderImage_overlays:
  "overlayLayer1 (renderImage opts v i s) = overlayLayer1 s"
  "overlayLayer2 (renderImage opts v i s) = overlayLayer2 s"
  by (simp_all add: renderImage_def setProperties_def Let_def)

lemma resetImage_overlayLayer2: "overlayLayer2 (resetImage opts s) = overlayLayer2 s"
  by (cases "source s")
     (simp_all add: resetImage_def Let_def resetSelectBox_def setPointer_def setProperties_def
        renderImage_overlays)

lemma resetImage_overlayLayer1:
  "overlayLayer1 (resetImage opts s)
     = (case source s of
          None \<Rightarrow> overlayLayer1 s
        | Some src \<Rightarrow>
            let viewDims = scaleToFit (dim_w (source_dims (properties s)))
                             (dim_h (source_dims (properties s)))
                             (dim_w (base_dims (properties s))) (dim_h (base_dims (properties s)))
            in ControlPoints
                 (map (\<lambda>ctrlPt. scalePoint ctrlPt
                         \<lparr>dim_x = 0, dim_y = 0, dim_w = sz_w viewDims, dim_h = sz_h viewDims\<rparr>
                         (image_dims (properties s)))
                      (points (pointer s))))"
  by (cases "source s")
     (simp_all add: resetImage_def Let_def resetSelectBox_def setPointer_def setProperties_def
        renderImage_overlays)

lemma loadImage_methods: "methods (loadImage opts env response s) = methods s"
  by (simp add: loadImage_def loadImage_done_def loadImage_start_def init_def setProperties_def
        renderImage_frame Let_def split: option.splits)

lemma removeImage_methods: "methods (removeImage s) = methods s"
  by (simp add: removeImage_def removeImageWith_def reset_def clearOverlay_def clearPoints_def
        setPointer_def)

lemma alignImage_methods: "methods (alignImage opts result s) = methods s"
  by (cases result) (simp_all add: alignImage_def renderImage_frame Let_def)

lemma applyCropBox_methods: "methods (applyCropBox opts cropped s) = methods s"
  by (simp add: applyCropBox_def renderImage_frame clearOverlay_def clearPoints_def setPointer_def
        setProperties_def Let_def split: option.splits sum.splits)

lemma bundles:
  "bundleOf Pan panMethods" "bundleOf Select selectMethods"
  "bundleOf Crop cropMethods" "bundleOf Crop moveCropMethods"
  by (simp_all add: bundleOf_def panMethods_def selectMethods_def cropMethods_def
        moveCropMethods_def)

lemma modeEffect_bundle: "bundleOf m (methods (modeEffect opts m s))"
  by (cases m) (simp_all add: modeEffect_def setMethods_def bundles)

text \<open>A handler leaves the methods alone, or is a crop handler and installs a crop bundle.\<close>

lemma runHandler_methods:
  assumes "runHandler opts inRange ev h s = Inr s'"
  shows "methods s' = methods s \<or> (handlerMode h = Crop \<and> bundleOf Crop (methods s'))"
proof (cases h)
  case SelectControlPoint
  then show ?thesis using assms
    by (auto simp: selectControlPoint_def Let_def resetBounds_def setProperties_def setPointer_def
        split: prod.splits option.splits if_splits)
next
  case MoveControlPoint
  then show ?thesis using assms
    by (auto simp: moveControlPoint_def Let_def setPointer_def split: option.splits if_splits)
next
  case StartCropBox
  then show ?thesis using assms
    by (auto simp: startCropBox_def Let_def setPointer_def setMethods_def bundles
        split: option.splits if_splits)
next
  case EndCropBox
  then show ?thesis using assms
    by (auto simp: endCropBox_def Let_def setPointer_def setMethods_def bundles
        split: option.splits if_splits)
next
  case MoveCropBox
  then show ?thesis using assms
    by (auto simp: moveCropBox_def Let_def setPointer_def split: option.splits if_splits)
qed (use assms in \<open>auto simp: startPanImage_def endPanImage_def panImage_def
      deselectControlPoint_def selectCropBox_def Let_def setPointer_def setProperties_def
      split: option.splits\<close>)

lemma installed_bundle:
  "bundleOf m ms \<Longrightarrow> handlerMode (installed k ms) = m"
  by (cases k) (simp_all add: installed_def bundleOf_def)

lemma dispatch_bundle:
  assumes "bundleOf m (methods s)"
  shows "bundleOf m (methods (dispatch opts inRange ev s))"
proof (cases "runHandler opts inRange ev (installed (ev_kind ev) (methods s)) s")
  case (Inl e)
  then show ?thesis using assms by (simp add: dispatch_def)
next
  case (Inr s')
  from runHandler_methods[OF Inr] installed_bundle[OF assms, of "ev_kind ev"] assms Inr
  show ?thesis by (auto simp: dispatch_def)
qed

lemma step_bundle:
  assumes "bundleOf (fst c) (methods (snd c))"
  shows "bundleOf (fst (step opts inRange a c)) (methods (snd (step opts inRange a c)))"
proof (cases c)
  case (Pair m s)
  with assms show ?thesis
    by (cases a)
       (simp_all add: modeEffect_bundle dispatch_bundle loadImage_methods resetImage_methods
          removeImage_methods alignImage_methods applyCropBox_methods setPointer_def)
qed

lemma runActions_bundle:
  "bundleOf (fst c) (methods (snd c))
   \<Longrightarrow> bundleOf (fst (runActions opts inRange acts c)) (methods (snd (runActions opts inRange acts c)))"
proof (induction acts arbitrary: c)
  case Nil
  then show ?case by (simp add: runActions_def)
next
  case (Cons a acts)
  from Cons.IH[OF step_bundle[OF Cons.prems, of opts inRange a]]
  show ?case by (simp add: runActions_def)
qed

text \<open>The clamp of \<^verbatim>\<open>_endCropBox\<close> agrees with the intersection on an axis where the box starts
  inside the image, or starts left of it and ends inside it.\<close>

lemma clampExtent_intersection:
  assumes "0 \<le> len" "v \<le> edge" "v + len \<le> edge \<or> 0 \<le> v" "0 \<le> v + len"
  shows "clampExtent v len edge = min (v + len) edge - max v 0"
  using assms by (auto simp: clampExtent_def)

text \<open>The example of section 8: the box (-50, 10, 200, 100) on a 150 x 300 image is committed
  as (0, 10, 150, 100).\<close>

lemma endCropBox_example:
  "endCropBox (cropPanel (rect (- 50) 10 200 100))
     = Inr (setMethods cropMethods
         ((setPointer (\<lambda>p. p\<lparr>selectBox := Some (rect 0 10 150 100)\<rparr>)
             (cropPanel (rect (- 50) 10 200 100)))\<lparr>overlayLayer1 := BoundingBox 0 20 300 200\<rparr>))"
  by code_simp

subsection \<open>Placing control points\<close>

text \<open>Claim C1, as the spec states it, at a position outside the rendered image: the narrow
  panel holds one control point, the options allow one, the canvas position (500, 300) is
  outside the rendered image (300 wide) and far from the stored point, and no message is
  emitted: the handler has returned at its outside-of-image check.\<close>

theorem selectControlPoint_cap_outside_counterexample:
  "controlPtMax onePointOptions \<le> length (points (pointer narrowMarked))
   \<and> points (pointer narrowMarked) = [pt 0 0]
   \<and> \<not> nearControlPoint inRangeEuclid (ptrRadius onePointOptions)
           (properties narrowMarked) (pt 500 300) (pt 0 0)
   \<and> message (selectControlPoint onePointOptions inRangeEuclid exampleEnv (pt 500 300) narrowMarked)
       = None"
  by code_simp

text \<open>Claim C1 (amended): in select mode, for every pointer-down whose position lies inside the
  rendered image and is not within ptrRadius of an existing control point: if the list already
  holds controlPtMax points (or more), the maxControlPoints error message is emitted and the
  list is unchanged; if it holds fewer, the image-space point is appended (and no message is
  emitted).\<close>

theorem selectControlPoint_cap_inside:
  assumes inside: "\<not> outsideImage (properties s) pos"
      and far: "\<forall>c \<in> set (points (pointer s)).
                  \<not> nearControlPoint inRange (ptrRadius opts) (properties s) pos c"
  shows "(controlPtMax opts \<le> length (points (pointer s)) \<longrightarrow>
            message (selectControlPoint opts inRange env pos s)
              = Some (GetError ''maxControlPoints'' ''canvas'')
          \<and> points (pointer (selectControlPoint opts inRange env pos s)) = points (pointer s))
       \<and> (length (points (pointer s)) < controlPtMax opts \<longrightarrow>
            points (pointer (selectControlPoint opts inRange env pos s))
              = points (pointer s) @ [actualPoint (properties s) pos]
          \<and> message (selectControlPoint opts inRange env pos s) = message s)"
proof -
  obtain pts where "selectControlPoint opts inRange env pos s =
     (if length (points (pointer s)) \<ge> controlPtMax opts
      then (resetBounds env s)\<lparr>message := Some (GetError ''maxControlPoints'' ''canvas'')\<rparr>
      else (setPointer (\<lambda>p. p\<lparr>points := points (pointer s) @ [actualPoint (properties s) pos]\<rparr>)
              (resetBounds env s))\<lparr>overlayLayer1 := ControlPoints (pts @ [pos])\<rparr>)"
    using selectControlPoint_no_hit[OF inside far] by blast
  then show ?thesis
    by (simp add: resetBounds_frame setPointer_def)
qed

theorem selectControlPoint_cap_inside_witness:
  "\<not> outsideImage (properties markedPanel) (pt 400 300)
   \<and> points (pointer markedPanel) = [pt 0 0]
   \<and> \<not> nearControlPoint inRangeEuclid 20 (properties markedPanel) (pt 400 300) (pt 0 0)
   \<and> message (selectControlPoint onePointOptions inRangeEuclid exampleEnv (pt 400 300) markedPanel)
       = Some (GetError ''maxControlPoints'' ''canvas'')
   \<and> points (pointer (selectControlPoint onePointOptions inRangeEuclid exampleEnv (pt 400 300) markedPanel))
       = [pt 0 0]
   \<and> points (pointer (selectControlPoint exampleOptions inRangeEuclid exampleEnv (pt 400 300) markedPanel))
       = [pt 0 0, pt 2000 1500]"
proof -
  have inside: "\<not> outsideImage (properties markedPanel) (pt 400 300)"
    by code_simp
  have far: "\<forall>c \<in> set (points (pointer markedPanel)).
               \<not> nearControlPoint inRangeEuclid 20 (properties markedPanel) (pt 400 300) c"
    by code_simp
  have r1: "ptrRadius onePointOptions = 20" and r4: "ptrRadius exampleOptions = 20"
    by (simp_all add: onePointOptions_def exampleOptions_def)
  have pts: "points (pointer markedPanel) = [pt 0 0]"
    by code_simp
  have act: "actualPoint (properties markedPanel) (pt 400 300) = pt 2000 1500"
    by code_simp
  have cap1: "controlPtMax onePointOptions \<le> length (points (pointer markedPanel))"
    by (simp add: pts onePointOptions_def)
  have cap4: "length (points (pointer markedPanel)) < controlPtMax exampleOptions"
    by (simp add: pts exampleOptions_def)
  from selectControlPoint_cap_inside[of markedPanel "pt 400 300" inRangeEuclid onePointOptions exampleEnv]
    inside far cap1
  have a: "message (selectControlPoint onePointOptions inRangeEuclid exampleEnv (pt 400 300) markedPanel)
             = Some (GetError ''maxControlPoints'' ''canvas'')
           \<and> points (pointer (selectControlPoint onePointOptions inRangeEuclid exampleEnv (pt 400 300) markedPanel))
             = [pt 0 0]"
    by (simp add: r1 pts)
  from selectControlPoint_cap_inside[of markedPanel "pt 400 300" inRangeEuclid exampleOptions exampleEnv]
    inside far cap4
  have b: "points (pointer (selectControlPoint exampleOptions inRangeEuclid exampleEnv (pt 400 300) markedPanel))
             = [pt 0 0, pt 2000 1500]"
    by (simp add: r4 pts act)
  from far have "\<not> nearControlPoint inRangeEuclid 20 (properties markedPanel) (pt 400 300) (pt 0 0)"
    by (simp add: pts)
  with inside pts a b show ?thesis by blast
qed

text \<open>Claim C10: in select mode, a pointer-down whose canvas position is outside the rendered
  image (left of or above the render offset, or beyond the offset plus the rendered width or
  height) is ignored: no control point is added, none is selected, no message is emitted,
  the pointer state is unchanged and nothing is drawn; the handler has only refreshed the
  panel's bounds.\<close>

theorem selectControlPoint_outside_ignored:
  assumes "pt_x pos < js_round (dim_x (render_dims (properties s)))
         \<or> pt_y pos < js_round (dim_y (render_dims (properties s)))
         \<or> pt_x pos > dim_w (render_dims (properties s)) + js_round (dim_x (render_dims (properties s)))
         \<or> pt_y pos > dim_h (render_dims (properties s)) + js_round (dim_y (render_dims (properties s)))"
  shows "pointer (selectControlPoint opts inRange env pos s) = pointer s
       \<and> message (selectControlPoint opts inRange env pos s) = message s
       \<and> overlayLayer1 (selectControlPoint opts inRange env pos s) = overlayLayer1 s
       \<and> selectControlPoint opts inRange env pos s = resetBounds env s"
proof -
  have "outsideImage (properties s) pos"
    using assms by (auto simp: outsideImage_def renderOffset_def Let_def)
  then have "selectControlPoint opts inRange env pos s = resetBounds env s"
    by (simp add: selectControlPoint_def Let_def)
  then show ?thesis by (simp add: resetBounds_frame)
qed

theorem selectControlPoint_outside_ignored_witness:
  "pt_x (pt 500 300) > dim_w (render_dims (properties narrowMarked))
                        + js_round (dim_x (render_dims (properties narrowMarked)))
   \<and> pointer (selectControlPoint exampleOptions inRangeEuclid exampleEnv (pt 500 300) narrowMarked)
       = pointer narrowMarked
   \<and> message (selectControlPoint exampleOptions inRangeEuclid exampleEnv (pt 500 300) narrowMarked)
       = message narrowMarked
   \<and> points (pointer narrowMarked) = [pt 0 0]"
proof -
  have h: "pt_x (pt 500 300) > dim_w (render_dims (properties narrowMarked))
                        + js_round (dim_x (render_dims (properties narrowMarked)))"
    by code_simp
  have p: "points (pointer narrowMarked) = [pt 0 0]"
    by code_simp
  from selectControlPoint_outside_ignored[of "pt 500 300" narrowMarked exampleOptions inRangeEuclid exampleEnv] h
  have "pointer (selectControlPoint exampleOptions inRangeEuclid exampleEnv (pt 500 300) narrowMarked)
          = pointer narrowMarked
        \<and> message (selectControlPoint exampleOptions inRangeEuclid exampleEnv (pt 500 300) narrowMarked)
          = message narrowMarked"
    by blast
  with h p show ?thesis by blast
qed

subsection \<open>The example of section 8: load, then place a control point\<close>

text \<open>Claim C3, as the spec states it, on a panel at its cap: the 4000 x 3000 image is loaded
  into the 800 x 600 canvas, one control point is stored (far from the click), the options
  allow one; the pointer-down at (400, 300) appends nothing.\<close>

theorem load_then_select_at_cap_counterexample:
  "render_dims (properties markedPanel) = rect 0 0 800 600
   \<and> image_dims (properties markedPanel) = rect 0 0 4000 3000
   \<and> points (pointer markedPanel) = [pt 0 0]
   \<and> \<not> nearControlPoint inRangeEuclid (ptrRadius onePointOptions) (properties markedPanel)
           (pt 400 300) (pt 0 0)
   \<and> points (pointer (selectControlPoint onePointOptions inRangeEuclid exampleEnv (pt 400 300)
                         markedPanel)) = [pt 0 0]"
  by code_simp

lemma loadImage_success:
  assumes "lr_props response = Some props" "lr_error response = None"
  shows "render_dims (properties (loadImage opts env response s))
           = (let d = scaleToFit (dim_w (lp_source_dims props)) (dim_h (lp_source_dims props))
                        (dim_w (lp_base_dims props)) (dim_h (lp_base_dims props))
              in \<lparr>dim_x = 0, dim_y = 0, dim_w = sz_w d, dim_h = sz_h d\<rparr>)"
    and "image_dims (properties (loadImage opts env response s)) = lp_image_dims props"
    and "pointer (loadImage opts env response s) = pointer s"
    and "image_buf (loadImage opts env response s) \<noteq> None"
    and "status (loadImage opts env response s) = Loaded"
  using assms
  by (simp_all add: loadImage_def loadImage_done_def loadImage_start_def renderImage_frame Let_def
        init_def setProperties_def)

text \<open>Claim C3 (amended): for a panel whose image (image_dims and source_dims) is 4000 x 3000
  and whose base canvas is 800 x 600, loading yields render_dims (0, 0, 800, 600), and a
  select-mode pointer-down at canvas position (400, 300), with no existing control point
  within ptrRadius and fewer than controlPtMax points stored, appends the image-space control
  point (2000, 1500) to the panel's points list.\<close>

theorem load_then_select_example:
  assumes props: "lr_props response = Some props" "lr_error response = None"
      and img: "dim_w (lp_image_dims props) = 4000" "dim_h (lp_image_dims props) = 3000"
      and src: "dim_w (lp_source_dims props) = 4000" "dim_h (lp_source_dims props) = 3000"
      and base: "dim_w (lp_base_dims props) = 800" "dim_h (lp_base_dims props) = 600"
      and far: "\<forall>c \<in> set (points (pointer s)).
                  \<not> nearControlPoint inRange (ptrRadius opts)
                      (properties (loadImage opts env response s)) (pt 400 300) c"
      and room: "length (points (pointer s)) < controlPtMax opts"
  shows "render_dims (properties (loadImage opts env response s)) = rect 0 0 800 600
       \<and> points (pointer (selectControlPoint opts inRange env' (pt 400 300)
                            (loadImage opts env response s)))
           = points (pointer s) @ [pt 2000 1500]"
proof -
  let ?L = "loadImage opts env response s"
  have rd: "render_dims (properties ?L) = rect 0 0 800 600"
    using loadImage_success(1)[OF props] src base by (simp add: scaleToFit_def rect_def Let_def)
  have idims: "dim_w (image_dims (properties ?L)) = 4000" "dim_h (image_dims (properties ?L)) = 3000"
    using loadImage_success(2)[OF props] img by simp_all
  have ptr: "pointer ?L = pointer s"
    using loadImage_success(3)[OF props] .
  have zero: "js_round 0 = 0" and r1: "js_round 2000 = 2000" and r2: "js_round 1500 = 1500"
    by code_simp+
  have inside: "\<not> outsideImage (properties ?L) (pt 400 300)"
    by (simp add: outsideImage_def renderOffset_def rd rect_def pt_def zero Let_def)
  have act: "actualPoint (properties ?L) (pt 400 300) = pt 2000 1500"
    by (simp add: actualPoint_def renderOffset_def getScale_def rd idims rect_def pt_def zero r1 r2
          Let_def)
  obtain pts where "selectControlPoint opts inRange env' (pt 400 300) ?L =
     (if length (points (pointer ?L)) \<ge> controlPtMax opts
      then (resetBounds env' ?L)\<lparr>message := Some (GetError ''maxControlPoints'' ''canvas'')\<rparr>
      else (setPointer (\<lambda>p. p\<lparr>points := points (pointer ?L) @ [actualPoint (properties ?L) (pt 400 300)]\<rparr>)
              (resetBounds env' ?L))\<lparr>overlayLayer1 := ControlPoints (pts @ [pt 400 300])\<rparr>)"
    using selectControlPoint_no_hit[OF inside, where opts = opts and inRange = inRange and env = env']
      far ptr by auto
  then have "points (pointer (selectControlPoint opts inRange env' (pt 400 300) ?L))
               = points (pointer s) @ [pt 2000 1500]"
    using room by (simp add: ptr act setPointer_def resetBounds_frame)
  with rd show ?thesis by simp
qed

theorem load_then_select_example_witness:
  "lr_props exampleResponse = Some \<lparr>lp_image_dims = rect 0 0 4000 3000,
                                    lp_source_dims = rect 0 0 4000 3000,
                                    lp_base_dims = rect 0 0 800 600\<rparr>
   \<and> lr_error exampleResponse = None
   \<and> length (points (pointer emptyPanel)) < controlPtMax exampleOptions
   \<and> render_dims (properties (loadImage exampleOptions exampleEnv exampleResponse emptyPanel))
       = rect 0 0 800 600
   \<and> points (pointer (selectControlPoint exampleOptions inRangeEuclid exampleEnv (pt 400 300)
                        (loadImage exampleOptions exampleEnv exampleResponse emptyPanel)))
       = [pt 2000 1500]"
proof -
  let ?p = "\<lparr>lp_image_dims = rect 0 0 4000 3000, lp_source_dims = rect 0 0 4000 3000,
             lp_base_dims = rect 0 0 800 600\<rparr>"
  have p: "lr_props exampleResponse = Some ?p" and e: "lr_error exampleResponse = None"
    by (simp_all add: exampleResponse_def)
  have pts: "points (pointer emptyPanel) = []"
    by (simp add: emptyPanel_def initPointer_def)
  have room: "length (points (pointer emptyPanel)) < controlPtMax exampleOptions"
    by (simp add: pts exampleOptions_def)
  have far: "\<forall>c \<in> set (points (pointer emptyPanel)).
               \<not> nearControlPoint inRangeEuclid (ptrRadius exampleOptions)
                   (properties (loadImage exampleOptions exampleEnv exampleResponse emptyPanel))
                   (pt 400 300) c"
    by (simp add: pts)
  from load_then_select_example[OF p e _ _ _ _ _ _ far room, of exampleEnv]
  have "render_dims (properties (loadImage exampleOptions exampleEnv exampleResponse emptyPanel))
          = rect 0 0 800 600
        \<and> points (pointer (selectControlPoint exampleOptions inRangeEuclid exampleEnv (pt 400 300)
                        (loadImage exampleOptions exampleEnv exampleResponse emptyPanel)))
          = points (pointer emptyPanel) @ [pt 2000 1500]"
    by (simp add: rect_def)
  with p e room show ?thesis by (simp add: pts)
qed

subsection \<open>Crop box\<close>

text \<open>Claim C2, at a box right of the image and at a box that overhangs the image on both sides:
  for the select box (200, 10, 50, 100) on the loaded 150 x 300 image, \<^verbatim>\<open>_endCropBox\<close> commits
  (150, 10, -50, 100), a box of negative width, where the intersection with the image bounds is
  empty; for the select box (-50, 10, 300, 100) it commits (0, 10, 100, 100), where the
  intersection is (0, 10, 150, 100).\<close>

theorem endCropBox_not_intersection:
  "status narrowPanel = Loaded \<and> image_buf narrowPanel = Some (Pixels 2)
   \<and> image_dims (properties narrowPanel) = rect 0 0 150 300
   \<and> endCropBox (cropPanel (rect 200 10 50 100))
     = Inr (setMethods cropMethods
         ((setPointer (\<lambda>p. p\<lparr>selectBox := Some (rect 150 10 (- 50) 100)\<rparr>)
             (cropPanel (rect 200 10 50 100)))\<lparr>overlayLayer1 := BoundingBox 300 20 100 200\<rparr>))
   \<and> intersectBox_spec (rect 200 10 50 100) (rect 0 0 150 300) = None
   \<and> endCropBox (cropPanel (rect (- 50) 10 300 100))
     = Inr (setMethods cropMethods
         ((setPointer (\<lambda>p. p\<lparr>selectBox := Some (rect 0 10 100 100)\<rparr>)
             (cropPanel (rect (- 50) 10 300 100)))\<lparr>overlayLayer1 := BoundingBox 0 20 200 200\<rparr>))
   \<and> intersectBox_spec (rect (- 50) 10 300 100) (rect 0 0 150 300) = Some (rect 0 10 150 100)"
  by code_simp

text \<open>The first of the two boxes is what a drag over the canvas right of the rendered image
  produces: crop mode, the anchor at (400, 20), the cursor moved to (500, 220), mouse-up.\<close>

lemma endCropBox_outside_reached:
  "selectBox (pointer (snd (runActions exampleOptions inRangeEuclid
      [TrackPointer 400 20 (Some (pt 400 20)), PointerEvent (mouseEvent MouseDown),
       TrackPointer 500 220 (Some (pt 400 20)), PointerEvent (mouseEvent MouseMove)]
      (mount exampleOptions Crop narrowPanel)))) = Some (rect 200 10 50 100)
   \<and> selectBox (pointer (snd (runActions exampleOptions inRangeEuclid
      [TrackPointer 400 20 (Some (pt 400 20)), PointerEvent (mouseEvent MouseDown),
       TrackPointer 500 220 (Some (pt 400 20)), PointerEvent (mouseEvent MouseMove),
       PointerEvent (mouseEvent MouseUp)]
      (mount exampleOptions Crop narrowPanel)))) = Some (rect 150 10 (- 50) 100)"
  by code_simp

text \<open>Claim C5, at the empty select box and at a box of zero width: \<^verbatim>\<open>_applyCropBox\<close> on the
  loaded panel with the empty box leaves the status at loading, not loaded; with a box of zero
  width and non-zero height it goes on to crop, and replaces the image and its dimensions
  (or, when the crop utility throws, reports an error).\<close>

theorem applyCropBox_empty_box_sets_loading:
  "status loadedPanel = Loaded
   \<and> selectBox (pointer loadedPanel) = Some (rect 0 0 0 0)
   \<and> status (applyCropBox exampleOptions (Inr (Pixels 3)) loadedPanel) = Loading
   \<and> image_buf (applyCropBox exampleOptions (Inr (Pixels 3)) (cropPanel (rect 0 0 0 50)))
       = Some (Pixels 3)
   \<and> image_dims (properties (applyCropBox exampleOptions (Inr (Pixels 3)) (cropPanel (rect 0 0 0 50))))
       = rect 0 0 0 50
   \<and> message (applyCropBox exampleOptions (Inl Thrown) (cropPanel (rect 0 0 0 50)))
       = Some (Msg ''Image could not be cropped.'' ''error'')"
  by code_simp

subsection \<open>Align\<close>

text \<open>Claim C4, at every solver error: \<^verbatim>\<open>_alignImage\<close> surfaces the error as the user message and
  leaves the image as it was, but the status it ends at is loading (set on entry and not set
  again on this path), not loaded.\<close>

theorem alignImage_error_leaves_loading:
  "status (alignImage opts (AlignError err) s) = Loading
   \<and> message (alignImage opts (AlignError err) s) = Some err
   \<and> image_buf (alignImage opts (AlignError err) s) = image_buf s
   \<and> alignImage opts (AlignError err) s = s\<lparr>status := Loading, message := Some err\<rparr>"
  by (simp add: alignImage_def)

subsection \<open>Pan mode\<close>

text \<open>Claim C6: in pan mode, a mouse-move with a selected anchor translates render_dims.x and
  render_dims.y by exactly the cursor displacement since the anchor (pointer minus anchor),
  leaves render_dims.w and render_dims.h, the image_dims and the control-point list unchanged;
  the pan-mode mouse-down, mouse-up and mouse-out handlers change nothing, also when
  dispatched through the installed pan bundle.\<close>

theorem panImage_translates:
  assumes "selected (pointer s) = Some anchor"
  shows "dim_x (render_dims (properties (panImage s)))
           = dim_x (render_dims (properties s)) + (ptr_x (pointer s) - pt_x anchor)
       \<and> dim_y (render_dims (properties (panImage s)))
           = dim_y (render_dims (properties s)) + (ptr_y (pointer s) - pt_y anchor)
       \<and> dim_w (render_dims (properties (panImage s))) = dim_w (render_dims (properties s))
       \<and> dim_h (render_dims (properties (panImage s))) = dim_h (render_dims (properties s))
       \<and> image_dims (properties (panImage s)) = image_dims (properties s)
       \<and> points (pointer (panImage s)) = points (pointer s)
       \<and> startPanImage s = s \<and> endPanImage s = s
       \<and> (methods s = panMethods \<longrightarrow>
            dispatch opts inRange \<lparr>ev_kind = MouseDown, ev_pos = pos, ev_env = env\<rparr> s = s
          \<and> dispatch opts inRange \<lparr>ev_kind = MouseUp, ev_pos = pos, ev_env = env\<rparr> s = s
          \<and> dispatch opts inRange \<lparr>ev_kind = MouseOut, ev_pos = pos, ev_env = env\<rparr> s = s)"
  using assms
  by (simp add: panImage_def setPointer_def setProperties_def Let_def startPanImage_def
        endPanImage_def dispatch_def installed_def panMethods_def)

theorem panImage_translates_witness:
  "selected (pointer draggedPanel) = Some (pt 100 100)
   \<and> methods draggedPanel = panMethods
   \<and> ptr_x (pointer draggedPanel) = 130 \<and> ptr_y (pointer draggedPanel) = 90
   \<and> dim_x (render_dims (properties draggedPanel)) = 0
   \<and> dim_y (render_dims (properties draggedPanel)) = 0
   \<and> dim_x (render_dims (properties (panImage draggedPanel))) = 30
   \<and> dim_y (render_dims (properties (panImage draggedPanel))) = - 10
   \<and> dispatch exampleOptions inRangeEuclid
        \<lparr>ev_kind = MouseDown, ev_pos = pt 130 90, ev_env = exampleEnv\<rparr> draggedPanel = draggedPanel"
proof -
  have sel: "selected (pointer draggedPanel) = Some (pt 100 100)"
    by (simp add: draggedPanel_def setPointer_def)
  have ms: "methods draggedPanel = panMethods"
    by code_simp
  have px: "ptr_x (pointer draggedPanel) = 130" and py: "ptr_y (pointer draggedPanel) = 90"
    by (simp_all add: draggedPanel_def setPointer_def)
  have rx: "dim_x (render_dims (properties draggedPanel)) = 0"
    and ry: "dim_y (render_dims (properties draggedPanel)) = 0"
    by code_simp+
  from panImage_translates[OF sel, of exampleOptions inRangeEuclid "pt 130 90" exampleEnv] ms
  have "dim_x (render_dims (properties (panImage draggedPanel))) = 30
        \<and> dim_y (render_dims (properties (panImage draggedPanel))) = - 10
        \<and> dispatch exampleOptions inRangeEuclid
            \<lparr>ev_kind = MouseDown, ev_pos = pt 130 90, ev_env = exampleEnv\<rparr> draggedPanel = draggedPanel"
    by (simp add: px py rx ry pt_def)
  with sel ms px py rx ry show ?thesis by blast
qed

subsection \<open>Mode changes\<close>

text \<open>Claim C7, as the spec states it, at a change into pan mode: the control points drawn on
  overlay layer 1 of the marked panel are still there after the mode effect has run.\<close>

theorem modeEffect_pan_keeps_overlay_counterexample:
  "overlayLayer1 markedPanel = ControlPoints [pt 0 0]
   \<and> overlayLayer1 (modeEffect exampleOptions Pan markedPanel) = ControlPoints [pt 0 0]
   \<and> overlayLayer1 (modeEffect exampleOptions Pan markedPanel) \<noteq> Cleared"
  by code_simp

text \<open>Claim C7 (amended): for every mode change into crop mode on a panel with an image, the
  panel's image is first reset from the source raster and the active select box is reset to
  empty before the crop handlers are installed; that reset leaves overlay layer 2 as it was
  and, when a source raster exists, replaces what overlay layer 1 shows by the stored control
  points, redrawn for the fitted view (without a source raster overlay layer 1 stays as it
  was). A change into crop mode on a panel without an image,
  and every change into pan or select mode, installs that mode's four handlers and changes
  nothing else: both overlay layers stay as they were.\<close>

theorem modeEffect_crop_resets:
  "(image_buf s \<noteq> None \<longrightarrow>
      modeEffect opts Crop s = setMethods cropMethods (resetImage opts s)
    \<and> image_buf (modeEffect opts Crop s) = source s
    \<and> selectBox (pointer (modeEffect opts Crop s)) = Some emptyBox
    \<and> methods (modeEffect opts Crop s) = cropMethods
    \<and> overlayLayer2 (modeEffect opts Crop s) = overlayLayer2 s
    \<and> overlayLayer1 (modeEffect opts Crop s)
        = (case source s of
             None \<Rightarrow> overlayLayer1 s
           | Some src \<Rightarrow>
               let viewDims = scaleToFit (dim_w (source_dims (properties s)))
                                (dim_h (source_dims (properties s)))
                                (dim_w (base_dims (properties s))) (dim_h (base_dims (properties s)))
               in ControlPoints
                    (map (\<lambda>ctrlPt. scalePoint ctrlPt
                            \<lparr>dim_x = 0, dim_y = 0, dim_w = sz_w viewDims, dim_h = sz_h viewDims\<rparr>
                            (image_dims (properties s)))
                         (points (pointer s)))))
   \<and> (image_buf s = None \<longrightarrow> modeEffect opts Crop s = s\<lparr>methods := cropMethods\<rparr>)
   \<and> modeEffect opts Pan s = s\<lparr>methods := panMethods\<rparr>
   \<and> modeEffect opts Select s = s\<lparr>methods := selectMethods\<rparr>
   \<and> overlayLayer1 (modeEffect opts Pan s) = overlayLayer1 s
   \<and> overlayLayer2 (modeEffect opts Pan s) = overlayLayer2 s
   \<and> overlayLayer1 (modeEffect opts Select s) = overlayLayer1 s
   \<and> overlayLayer2 (modeEffect opts Select s) = overlayLayer2 s"
  by (simp add: modeEffect_def setMethods_def resetImage_image resetImage_selectBox
        resetImage_overlayLayer1 resetImage_overlayLayer2)

theorem modeEffect_crop_resets_witness:
  "image_buf boxedPanel \<noteq> None
   \<and> source boxedPanel = Some (Pixels 2)
   \<and> selectBox (pointer boxedPanel) = Some (rect 10 10 50 50)
   \<and> overlayLayer1 boxedPanel = BoundingBox 20 20 100 100
   \<and> image_buf (modeEffect exampleOptions Crop boxedPanel) = Some (Pixels 2)
   \<and> selectBox (pointer (modeEffect exampleOptions Crop boxedPanel)) = Some emptyBox
   \<and> methods (modeEffect exampleOptions Crop boxedPanel) = cropMethods
   \<and> overlayLayer1 (modeEffect exampleOptions Crop boxedPanel) = ControlPoints []
   \<and> overlayLayer2 (modeEffect exampleOptions Crop boxedPanel) = overlayLayer2 boxedPanel
   \<and> image_buf emptyPanel = None
   \<and> modeEffect exampleOptions Crop emptyPanel = emptyPanel\<lparr>methods := cropMethods\<rparr>"
proof -
  have img: "image_buf boxedPanel \<noteq> None" by code_simp
  have src: "source boxedPanel = Some (Pixels 2)" by code_simp
  have box: "selectBox (pointer boxedPanel) = Some (rect 10 10 50 50)"
    by (simp add: boxedPanel_def cropPanel_def setPointer_def)
  have ov: "overlayLayer1 boxedPanel = BoundingBox 20 20 100 100"
    by (simp add: boxedPanel_def)
  have pts: "points (pointer boxedPanel) = []" by code_simp
  have none: "image_buf emptyPanel = None" by (simp add: emptyPanel_def)
  from modeEffect_crop_resets[of boxedPanel exampleOptions] img
  have a0: "image_buf (modeEffect exampleOptions Crop boxedPanel) = source boxedPanel
        \<and> selectBox (pointer (modeEffect exampleOptions Crop boxedPanel)) = Some emptyBox
        \<and> methods (modeEffect exampleOptions Crop boxedPanel) = cropMethods
        \<and> overlayLayer2 (modeEffect exampleOptions Crop boxedPanel) = overlayLayer2 boxedPanel
        \<and> overlayLayer1 (modeEffect exampleOptions Crop boxedPanel)
            = (case source boxedPanel of
                 None \<Rightarrow> overlayLayer1 boxedPanel
               | Some src \<Rightarrow>
                   let viewDims = scaleToFit (dim_w (source_dims (properties boxedPanel)))
                                    (dim_h (source_dims (properties boxedPanel)))
                                    (dim_w (base_dims (properties boxedPanel)))
                                    (dim_h (base_dims (properties boxedPanel)))
                   in ControlPoints
                        (map (\<lambda>ctrlPt. scalePoint ctrlPt
                                \<lparr>dim_x = 0, dim_y = 0, dim_w = sz_w viewDims, dim_h = sz_h viewDims\<rparr>
                                (image_dims (properties boxedPanel)))
                             (points (pointer boxedPanel))))"
    by blast
  then have a: "image_buf (modeEffect exampleOptions Crop boxedPanel) = Some (Pixels 2)
        \<and> selectBox (pointer (modeEffect exampleOptions Crop boxedPanel)) = Some emptyBox
        \<and> methods (modeEffect exampleOptions Crop boxedPanel) = cropMethods
        \<and> overlayLayer2 (modeEffect exampleOptions Crop boxedPanel) = overlayLayer2 boxedPanel
        \<and> overlayLayer1 (modeEffect exampleOptions Crop boxedPanel) = ControlPoints []"
    by (simp add: src pts)
  from modeEffect_crop_resets[of emptyPanel exampleOptions] none
  have b: "modeEffect exampleOptions Crop emptyPanel = emptyPanel\<lparr>methods := cropMethods\<rparr>"
    by blast
  from img src box ov a b none show ?thesis by simp
qed

subsection \<open>Image and status\<close>

lemma statusEffect_frame:
  assumes "status s \<noteq> Update"
  shows "image_buf (statusEffect opts old s) = image_buf s"
    and "status s \<noteq> Load \<Longrightarrow> old \<noteq> Empty \<Longrightarrow> old \<noteq> Update \<Longrightarrow> statusEffect opts old s = s"
    and "status s = Loaded \<Longrightarrow> statusEffect opts old s = s"
    and "status s = Load \<Longrightarrow> status (statusEffect opts old s) = Loading"
    and "status s = Loading \<Longrightarrow> status (statusEffect opts old s) = Loading
           \<or> status (statusEffect opts old s) = Loaded"
  using assms by (auto simp: statusEffect_def loadImage_start_def Let_def)

text \<open>A run of the status effect between the two halves of a load does not change what an
  answer with properties leads to.\<close>

lemma loadImage_across_statusEffect:
  assumes "lr_props response = Some props"
  shows "loadImage_done opts env response (statusEffect opts' old (loadImage_start s))
           = loadImage opts env response s"
proof -
  have "statusEffect opts' old (loadImage_start s) = loadImage_start s
        \<or> statusEffect opts' old (loadImage_start s) = (loadImage_start s)\<lparr>status := Loaded\<rparr>"
    by (simp add: statusEffect_def loadImage_start_def Let_def)
  then show ?thesis using assms
    by (auto simp: loadImage_def loadImage_done_def loadImage_start_def init_def setProperties_def
          renderImage_def Let_def split: option.splits)
qed

text \<open>With the reset of the spec, remove leaves the image null.\<close>

lemma removeImage_image_spec: "image_buf (removeImage s) = None"
  by (simp add: removeImage_def removeImageWith_def reset_def)

text \<open>Claim C8, as the spec states it, when a load starts on the empty panel: the call leaves the
  status at loading with the image still null; the status effect that then runs (its
  previous run saw empty) sets the status to loaded, the image still null.\<close>

theorem loadImage_start_breaks_invariant_counterexample:
  "imageNullIffEmpty_spec emptyPanel
   \<and> image_buf (loadImage_start emptyPanel) = None
   \<and> status (loadImage_start emptyPanel) = Loading
   \<and> \<not> imageNullIffEmpty_spec (loadImage_start emptyPanel)
   \<and> image_buf (statusEffect exampleOptions Empty (loadImage_start emptyPanel)) = None
   \<and> status (statusEffect exampleOptions Empty (loadImage_start emptyPanel)) = Loaded
   \<and> \<not> imageNullIffEmpty_spec (statusEffect exampleOptions Empty (loadImage_start emptyPanel))"
  by code_simp

text \<open>Claim C8 (amended): remove sets the status to empty and leaves the image as the provider's
  reset leaves it, and the status effect that follows changes nothing (its previous run having
  seen a status other than empty and update); a load that succeeds leaves the image non-null
  with status loaded, whether or not the status effect has run between the call and the
  loader's answer, and the status effect that follows changes nothing. The image can be null
  in a status other than empty: from the start of a load (a call of \<^verbatim>\<open>_loadImage\<close>, or the
  status effect seeing the status load) until the loader answers, the status is not empty,
  also after the status effect has run, and the image is what it was before the load, null
  on a panel that was empty.\<close>

theorem image_status_remove_load:
  "status (removeImageWith rst s) = Empty
   \<and> image_buf (removeImageWith rst s) = image_buf (rst (clearOverlay s))
   \<and> (old \<noteq> Empty \<and> old \<noteq> Update \<longrightarrow>
        statusEffect opts old (removeImageWith rst s) = removeImageWith rst s)
   \<and> (lr_props response = Some props \<and> lr_error response = None \<longrightarrow>
        image_buf (loadImage opts env response s) \<noteq> None
      \<and> status (loadImage opts env response s) = Loaded
      \<and> loadImage_done opts env response (statusEffect opts old (loadImage_start s))
          = loadImage opts env response s
      \<and> statusEffect opts old (loadImage opts env response s) = loadImage opts env response s)
   \<and> status (loadImage_start s) \<noteq> Empty
   \<and> image_buf (loadImage_start s) = image_buf s
   \<and> status (statusEffect opts old (loadImage_start s)) \<noteq> Empty
   \<and> image_buf (statusEffect opts old (loadImage_start s)) = image_buf s
   \<and> (status s = Load \<longrightarrow>
        status (statusEffect opts old s) = Loading
      \<and> image_buf (statusEffect opts old s) = image_buf s)"
proof -
  have rm: "status (removeImageWith rst s) = Empty"
    "image_buf (removeImageWith rst s) = image_buf (rst (clearOverlay s))"
    by (simp_all add: removeImageWith_def)
  have rm_eff: "old \<noteq> Empty \<Longrightarrow> old \<noteq> Update
                  \<Longrightarrow> statusEffect opts old (removeImageWith rst s) = removeImageWith rst s"
    using statusEffect_frame(2)[of "removeImageWith rst s" old opts] rm(1) by simp
  have ld: "lr_props response = Some props \<Longrightarrow> lr_error response = None
              \<Longrightarrow> image_buf (loadImage opts env response s) \<noteq> None
                \<and> status (loadImage opts env response s) = Loaded
                \<and> loadImage_done opts env response (statusEffect opts old (loadImage_start s))
                    = loadImage opts env response s
                \<and> statusEffect opts old (loadImage opts env response s)
                    = loadImage opts env response s"
    using loadImage_success(4,5)[of response props opts env s]
      loadImage_across_statusEffect[of response props opts env opts old s]
      statusEffect_frame(3)[of "loadImage opts env response s" opts old]
    by simp
  have st: "status (loadImage_start s) = Loading" "image_buf (loadImage_start s) = image_buf s"
    by (simp_all add: loadImage_start_def)
  have fl: "status (statusEffect opts old (loadImage_start s)) \<noteq> Empty"
    "image_buf (statusEffect opts old (loadImage_start s)) = image_buf s"
    using statusEffect_frame(5)[of "loadImage_start s" opts old]
      statusEffect_frame(1)[of "loadImage_start s" opts old] st
    by auto
  have rq: "status s = Load \<Longrightarrow> status (statusEffect opts old s) = Loading
              \<and> image_buf (statusEffect opts old s) = image_buf s"
    using statusEffect_frame(1,4)[of s opts old] by simp
  from rm rm_eff ld st fl rq show ?thesis by simp
qed

theorem image_status_remove_load_witness:
  "lr_props exampleResponse = Some \<lparr>lp_image_dims = rect 0 0 4000 3000,
                                    lp_source_dims = rect 0 0 4000 3000,
                                    lp_base_dims = rect 0 0 800 600\<rparr>
   \<and> lr_error exampleResponse = None
   \<and> image_buf (loadImage exampleOptions exampleEnv exampleResponse emptyPanel) \<noteq> None
   \<and> status (loadImage exampleOptions exampleEnv exampleResponse emptyPanel) = Loaded
   \<and> statusEffect exampleOptions Empty (loadImage exampleOptions exampleEnv exampleResponse emptyPanel)
       = loadImage exampleOptions exampleEnv exampleResponse emptyPanel
   \<and> status (removeImageWith reset loadedPanel) = Empty
   \<and> statusEffect exampleOptions Loaded (removeImageWith reset loadedPanel)
       = removeImageWith reset loadedPanel
   \<and> status requestedPanel = Load
   \<and> status (statusEffect exampleOptions Empty requestedPanel) = Loading
   \<and> image_buf (statusEffect exampleOptions Empty requestedPanel) = None"
proof -
  let ?p = "\<lparr>lp_image_dims = rect 0 0 4000 3000, lp_source_dims = rect 0 0 4000 3000,
             lp_base_dims = rect 0 0 800 600\<rparr>"
  have p: "lr_props exampleResponse = Some ?p" and e: "lr_error exampleResponse = None"
    by (simp_all add: exampleResponse_def)
  have o: "Loaded \<noteq> Empty" "Loaded \<noteq> Update" by simp_all
  have rq: "status requestedPanel = Load" by (simp add: requestedPanel_def)
  have ri: "image_buf requestedPanel = None" by (simp add: requestedPanel_def emptyPanel_def)
  from image_status_remove_load[of reset loadedPanel Loaded exampleOptions exampleResponse ?p exampleEnv] o
  have a: "status (removeImageWith reset loadedPanel) = Empty
           \<and> statusEffect exampleOptions Loaded (removeImageWith reset loadedPanel)
               = removeImageWith reset loadedPanel"
    by blast
  from image_status_remove_load[of reset emptyPanel Empty exampleOptions exampleResponse ?p exampleEnv] p e
  have b: "image_buf (loadImage exampleOptions exampleEnv exampleResponse emptyPanel) \<noteq> None
           \<and> status (loadImage exampleOptions exampleEnv exampleResponse emptyPanel) = Loaded
           \<and> statusEffect exampleOptions Empty
                (loadImage exampleOptions exampleEnv exampleResponse emptyPanel)
               = loadImage exampleOptions exampleEnv exampleResponse emptyPanel"
    by blast
  from image_status_remove_load[of reset requestedPanel Empty exampleOptions exampleResponse ?p exampleEnv] rq
  have c: "status (statusEffect exampleOptions Empty requestedPanel) = Loading
           \<and> image_buf (statusEffect exampleOptions Empty requestedPanel) = image_buf requestedPanel"
    by blast
  from p e a b c rq ri show ?thesis by simp
qed

subsection \<open>Handler bundles\<close>

text \<open>Claim C9: every assignment of the panel's handler set (by the mode effect, by
  \<^verbatim>\<open>_startCropBox\<close> and by \<^verbatim>\<open>_endCropBox\<close>) installs all four mouse handlers from one mode's
  behaviour set; so after mount and any sequence of mode changes, pointer events and commands,
  the four installed handlers all belong to the current mode, and every pointer event is
  dispatched to a handler of that mode.\<close>

theorem handler_bundles_unit:
  "bundleOf Pan panMethods \<and> bundleOf Select selectMethods
   \<and> bundleOf Crop cropMethods \<and> bundleOf Crop moveCropMethods
   \<and> bundleOf (fst (runActions opts inRange acts (mount opts m0 s0)))
        (methods (snd (runActions opts inRange acts (mount opts m0 s0))))
   \<and> handlerMode (installed k (methods (snd (runActions opts inRange acts (mount opts m0 s0)))))
       = fst (runActions opts inRange acts (mount opts m0 s0))"
proof -
  have "bundleOf (fst (mount opts m0 s0)) (methods (snd (mount opts m0 s0)))"
    by (simp add: mount_def modeEffect_bundle)
  from runActions_bundle[OF this, of opts inRange acts]
  show ?thesis by (simp add: bundles installed_bundle)
qed

text \<open>An example run: crop mode on mount, a box drawn and committed, then a pointer-down inside
  the box, which installs the move bundle; a change to select mode installs the select
  bundle.\<close>

lemma handler_bundles_example:
  "methods (snd (runActions exampleOptions inRangeEuclid
      [TrackPointer 10 10 (Some (pt 10 10)), PointerEvent (mouseEvent MouseDown),
       TrackPointer 110 110 (Some (pt 10 10)), PointerEvent (mouseEvent MouseMove),
       PointerEvent (mouseEvent MouseUp),
       TrackPointer 50 50 (Some (pt 50 50)), PointerEvent (mouseEvent MouseDown)]
      (mount exampleOptions Crop narrowPanel))) = moveCropMethods
   \<and> methods (snd (runActions exampleOptions inRangeEuclid
      [TrackPointer 10 10 (Some (pt 10 10)), PointerEvent (mouseEvent MouseDown),
       TrackPointer 110 110 (Some (pt 10 10)), PointerEvent (mouseEvent MouseMove),
       PointerEvent (mouseEvent MouseUp),
       TrackPointer 50 50 (Some (pt 50 50)), PointerEvent (mouseEvent MouseDown),
       SetMode Select]
      (mount exampleOptions Crop narrowPanel))) = selectMethods"
  by code_simp

end
